theory Spec2Isabelle
  imports Complex_Main "HOL-Library.Sublist"
begin

section \<open>Data model (internal/models/models.go)\<close>

text \<open>
  Go's \<^verbatim>\<open>float64\<close> is an IEEE 754 double. The validator only compares prices and
  volumes with zero, so a value is modelled by its class: a finite number (both zeros
  are \<open>Finite 0\<close>, they compare equal), an infinity, or NaN. Every ordered comparison
  with NaN is false, as in Go.
\<close>

datatype float64 = Finite real | PosInf | NegInf | NaN

fun f64_lt :: "float64 \<Rightarrow> float64 \<Rightarrow> bool" where
  "f64_lt NaN _ = False"
| "f64_lt _ NaN = False"
| "f64_lt (Finite a) (Finite b) = (a < b)"
| "f64_lt _ NegInf = False"
| "f64_lt NegInf _ = True"
| "f64_lt PosInf _ = False"
| "f64_lt (Finite a) PosInf = True"

fun f64_le :: "float64 \<Rightarrow> float64 \<Rightarrow> bool" where
  "f64_le NaN _ = False"
| "f64_le _ NaN = False"
| "f64_le (Finite a) (Finite b) = (a \<le> b)"
| "f64_le NegInf _ = True"
| "f64_le _ PosInf = True"
| "f64_le PosInf _ = False"
| "f64_le (Finite a) NegInf = False"

text \<open>
  A \<^verbatim>\<open>time.Time\<close> is modelled by the instant it denotes, in nanoseconds since
  January 1, year 1, 00:00:00 UTC, which is the zero value of the type. \<^verbatim>\<open>IsZero\<close>,
  \<^verbatim>\<open>Before\<close> and \<^verbatim>\<open>Add\<close> only read and move the instant. The instants of this
  program come from \<^verbatim>\<open>time.Now\<close> and from \<^verbatim>\<open>time.Parse\<close> of an RFC 3339 string (years
  0 to 9999) and move by hours, far inside the range of the seconds counter of a
  \<^verbatim>\<open>time.Time\<close>; \<^verbatim>\<open>Add\<close> is therefore the plain sum. The monotonic clock reading that
  \<^verbatim>\<open>time.Now\<close> attaches is not modelled.
\<close>

type_synonym Time = int

definition IsZero :: "Time \<Rightarrow> bool" where
  "IsZero t = (t = 0)"

definition Before :: "Time \<Rightarrow> Time \<Rightarrow> bool" where
  "Before t u = (t < u)"

definition Add :: "Time \<Rightarrow> int \<Rightarrow> Time" where
  "Add t d = t + d"

definition Hour :: int where
  "Hour = 3600 * 1000000000"

record MarketData =
  ID :: string
  Symbol :: string
  Price :: float64
  Volume :: float64
  Timestamp :: Time
  Source :: string

text \<open>
  Errors are values: \<open>Errorf\<close> is \<^verbatim>\<open>fmt.Errorf\<close> with a plain message,
  \<open>ErrorfIndex\<close> is \<^verbatim>\<open>fmt.Errorf("... %d: %w", i, err)\<close>, \<open>ErrorfWrap\<close> is
  \<^verbatim>\<open>fmt.Errorf("...: %w", err)\<close>, and \<open>External\<close> is an error handed back by a
  collaborator (the database driver, the Kafka client, a data source).
\<close>

datatype error =
    Errorf string
  | ErrorfIndex string nat error
  | ErrorfWrap string error
  | External string

section \<open>Record validator (internal/storage/postgres.go)\<close>

definition validateMarketData :: "MarketData \<Rightarrow> error option" where
  "validateMarketData d =
     (if ID d = [] then Some (Errorf ''id is required'')
      else if Symbol d = [] then Some (Errorf ''symbol is required'')
      else if f64_le (Price d) (Finite 0) then Some (Errorf ''price must be greater than 0'')
      else if f64_lt (Volume d) (Finite 0) then Some (Errorf ''volume cannot be negative'')
      else if IsZero (Timestamp d) then Some (Errorf ''timestamp is required'')
      else if Source d = [] then Some (Errorf ''source is required'')
      else None)"

subsection \<open>The six field rules as the specification words them\<close>

datatype field = FId | FSymbol | FPrice | FVolume | FTimestamp | FSource

definition field_order :: "field list" where
  "field_order = [FId, FSymbol, FPrice, FVolume, FTimestamp, FSource]"

fun field_name :: "field \<Rightarrow> string" where
  "field_name FId = ''id''"
| "field_name FSymbol = ''symbol''"
| "field_name FPrice = ''price''"
| "field_name FVolume = ''volume''"
| "field_name FTimestamp = ''timestamp''"
| "field_name FSource = ''source''"

text \<open>The rule of one field, in the specification's words (section 4.2).\<close>

fun spec_rule :: "field \<Rightarrow> MarketData \<Rightarrow> bool" where
  "spec_rule FId d = (ID d \<noteq> [])"
| "spec_rule FSymbol d = (Symbol d \<noteq> [])"
| "spec_rule FPrice d = f64_lt (Finite 0) (Price d)"
| "spec_rule FVolume d = f64_le (Finite 0) (Volume d)"
| "spec_rule FTimestamp d = (\<not> IsZero (Timestamp d))"
| "spec_rule FSource d = (Source d \<noteq> [])"

definition spec_first_violated :: "MarketData \<Rightarrow> field option" where
  "spec_first_violated d = find (\<lambda>f. \<not> spec_rule f d) field_order"

text \<open>An error names a field when its message starts with the name of the field.\<close>

fun names_field :: "error \<Rightarrow> field \<Rightarrow> bool" where
  "names_field (Errorf msg) f = prefix (field_name f) msg"
| "names_field _ f = False"

definition obs_nan_price :: MarketData where
  "obs_nan_price = \<lparr>ID = ''a1'', Symbol = ''BTCUSDT'', Price = NaN, Volume = Finite 100,
     Timestamp = 1700000000000000000, Source = ''binance''\<rparr>"

definition obs_valid :: MarketData where
  "obs_valid = \<lparr>ID = ''a1'', Symbol = ''BTCUSDT'', Price = Finite 10000, Volume = Finite 100,
     Timestamp = 1700000000000000000, Source = ''binance''\<rparr>"

section \<open>Collaborators and the observable world\<close>

text \<open>
  The dispatcher talks to three collaborators: the data sources, the PostgreSQL driver
  and the Kafka client. What they answer is not decided by this repository, so each
  answer is a parameter: a function of the history of calls made so far (the trace).
  Any deterministic behaviour of a collaborator, stateful or not, is such a function.
  The trace also is what the properties of the dispatcher are stated on.
\<close>

datatype level = Info | Warn | Error

datatype event =
    EvVisit string string
  | EvGetMarketData string string
  | EvBegin
  | EvExec MarketData
  | EvCommit
  | EvRollback
  | EvSave "MarketData list" "error option"
  | EvProduce MarketData
  | EvFlush
  | EvSend "MarketData list" "error option"
  | EvLog level string

text \<open>
  \<open>EvVisit symbol sourceName\<close>: the body of the inner loop of \<^verbatim>\<open>processData\<close> is entered
  for this pair (its first statement is \<^verbatim>\<open>factory.GetDataSource(sourceName)\<close>).
  \<open>EvGetMarketData sourceName symbol\<close>: the source's \<^verbatim>\<open>GetMarketData(symbol)\<close> was called.
  \<open>EvBegin\<close>, \<open>EvExec d\<close>, \<open>EvCommit\<close>, \<open>EvRollback\<close>: calls to the database driver.
  \<open>EvProduce d\<close>, \<open>EvFlush\<close>: calls to the Kafka client.
  \<open>EvSave data r\<close>, \<open>EvSend data r\<close>: \<^verbatim>\<open>db.SaveMarketData(data)\<close>, respectively
  \<^verbatim>\<open>kafkaProducer.SendMarketData(data)\<close>, was called and returned \<open>r\<close> (\<open>None\<close> is nil).
  \<open>EvLog\<close>: a logrus line, with its format string.
\<close>

record world =
  market_data :: "MarketData list"
  trace :: "event list"

definition emit :: "event \<Rightarrow> world \<Rightarrow> world" where
  "emit ev w = w\<lparr>trace := trace w @ [ev]\<rparr>"

section \<open>Source registry (internal/datasource/datasource.go)\<close>

text \<open>
  The interface \<^verbatim>\<open>DataSource\<close>: a value of it is a name and the behaviour of
  \<^verbatim>\<open>GetMarketData\<close>, which answers an error or a list of observations
  (\<^verbatim>\<open>GetHistoricalData\<close> is not called by the dispatcher and is left out of the
  interface). An interface value may be nil: \<open>None\<close>.
\<close>

record DataSource =
  Name :: string
  GetMarketData :: "event list \<Rightarrow> string \<Rightarrow> error + MarketData list"

text \<open>The factory is its map; the mutex has no sequential content.\<close>

record DataSourceFactory =
  sources :: "string \<rightharpoonup> DataSource option"

definition NewDataSourceFactory :: DataSourceFactory where
  "NewDataSourceFactory = \<lparr>sources = Map.empty\<rparr>"

definition Register :: "string \<Rightarrow> DataSource option \<Rightarrow> DataSourceFactory \<Rightarrow> DataSourceFactory" where
  "Register name source f = f\<lparr>sources := (sources f)(name \<mapsto> source)\<rparr>"

text \<open>Reading a Go map at a missing key gives the zero value of the value type: nil.\<close>

definition GetDataSource :: "DataSourceFactory \<Rightarrow> string \<Rightarrow> DataSource option" where
  "GetDataSource f name = (case sources f name of None \<Rightarrow> None | Some source \<Rightarrow> source)"

text \<open>A factory as the program builds one: created empty, then a sequence of registrations.\<close>

fun register_all :: "(string \<times> DataSource option) list \<Rightarrow> DataSourceFactory \<Rightarrow> DataSourceFactory" where
  "register_all [] f = f"
| "register_all ((name, source) # rs) f = register_all rs (Register name source f)"

section \<open>Synthetic exchange source (internal/datasource/exchange.go)\<close>

text \<open>
  The exchange source draws on the clock, the random generator, the uuid generator and
  the RFC 3339 parser, all of them libraries. Their results are parameters: the
  \<open>i\<close>-th call of \<^verbatim>\<open>time.Now()\<close>, \<^verbatim>\<open>rand.Float64()\<close>, \<^verbatim>\<open>uuid.New().String()\<close> within one
  call of the source, and the result of \<^verbatim>\<open>time.Parse(time.RFC3339, s)\<close> (\<open>None\<close>: error).
\<close>

record env =
  time_Now :: "nat \<Rightarrow> Time"
  rand_Float64 :: "nat \<Rightarrow> real"
  uuid_New :: "nat \<Rightarrow> string"
  time_Parse :: "string \<Rightarrow> Time option"

text \<open>
  What the libraries guarantee: the clock never reads the zero instant, a random float
  is in the interval from 0 (included) to 1 (excluded), and a uuid prints as 36 characters.
\<close>

definition env_ok :: "env \<Rightarrow> bool" where
  "env_ok en = (\<forall>i. time_Now en i \<noteq> 0 \<and> 0 \<le> rand_Float64 en i \<and> rand_Float64 en i < 1
                   \<and> length (uuid_New en i) = 36)"

record ExchangeDataSource =
  name :: string
  apiKey :: string
  apiSecret :: string

definition NewExchangeDataSource :: "string \<Rightarrow> string \<Rightarrow> string \<Rightarrow> ExchangeDataSource" where
  "NewExchangeDataSource n k s = \<lparr>name = n, apiKey = k, apiSecret = s\<rparr>"

text \<open>
  \<^verbatim>\<open>1000 + rand.Float64()*100\<close>: the sum of finite numbers, computed here without the
  rounding of the floating-point operations (rounding is monotone and 1000 is a double,
  so the result is finite and at least 1000 either way). \<^verbatim>\<open>time.Now()\<close> is called once
  for the seed (call 0) and once for the timestamp (call 1).
\<close>

definition ExchangeDataSource_GetMarketData ::
    "ExchangeDataSource \<Rightarrow> env \<Rightarrow> string \<Rightarrow> MarketData list \<times> error option" where
  "ExchangeDataSource_GetMarketData e en symbol =
     ([\<lparr>ID = uuid_New en 0,
        Symbol = symbol,
        Price = Finite (1000 + rand_Float64 en 0 * 100),
        Volume = Finite (10000 + rand_Float64 en 1 * 1000),
        Timestamp = time_Now en 1,
        Source = name e\<rparr>], None)"

text \<open>
  The loop of \<^verbatim>\<open>GetHistoricalData\<close>: \<open>i\<close> counts the rows appended so far; row \<open>i\<close>
  takes the \<open>i\<close>-th uuid and the random floats \<open>2i\<close> and \<open>2i+1\<close>.
\<close>

function hist_loop ::
    "ExchangeDataSource \<Rightarrow> env \<Rightarrow> string \<Rightarrow> Time \<Rightarrow> Time \<Rightarrow> nat \<Rightarrow> MarketData list \<Rightarrow> MarketData list" where
  "hist_loop e en symbol endT current i data =
     (if Before current endT
      then hist_loop e en symbol endT (Add current Hour) (Suc i)
             (data @ [\<lparr>ID = uuid_New en i,
                       Symbol = symbol,
                       Price = Finite (1000 + rand_Float64 en (2 * i) * 100),
                       Volume = Finite (10000 + rand_Float64 en (2 * i + 1) * 1000),
                       Timestamp = current,
                       Source = name e\<rparr>])
      else data)"
  by pat_completeness auto
termination
  by (relation "measure (\<lambda>(e, en, symbol, endT, current, i, data). nat (endT - current))")
     (auto simp: Before_def Add_def Hour_def)

text \<open>
  \<^verbatim>\<open>time.Now()\<close>: call 0 is the seed; a start time that does not parse takes the next
  call, minus 24 hours; an end time that does not parse takes the call after that.
\<close>

definition ExchangeDataSource_GetHistoricalData ::
    "ExchangeDataSource \<Rightarrow> env \<Rightarrow> string \<Rightarrow> string \<Rightarrow> string \<Rightarrow> MarketData list \<times> error option" where
  "ExchangeDataSource_GetHistoricalData e en symbol startTime endTime =
     (let (start, k) = (case time_Parse en startTime of
                          Some t \<Rightarrow> (t, 1)
                        | None \<Rightarrow> (Add (time_Now en 1) (- 24 * Hour), 2));
          endT = (case time_Parse en endTime of
                   Some t \<Rightarrow> t
                 | None \<Rightarrow> time_Now en k)
      in (hist_loop e en symbol endT start 0 [], None))"

definition ExchangeDataSource_Name :: "ExchangeDataSource \<Rightarrow> string" where
  "ExchangeDataSource_Name e = name e"

text \<open>Library results for the examples: a clock, a generator, two parseable instants.\<close>

definition t_2023 :: Time where
  "t_2023 = 63808128000 * 1000000000"

definition env0 :: env where
  "env0 = \<lparr>time_Now = (\<lambda>i. t_2023 + int i),
           rand_Float64 = (\<lambda>i. 1 / 2),
           uuid_New = (\<lambda>i. ''123e4567-e89b-12d3-a456-426614174000''),
           time_Parse = (\<lambda>s. if s = ''2023-01-01T00:00:00Z'' then Some t_2023
                              else if s = ''2023-01-01T02:00:00Z'' then Some (t_2023 + 2 * Hour)
                              else None)\<rparr>"

section \<open>Storage sink (internal/storage/postgres.go)\<close>

text \<open>
  The driver: \<open>pool_fault\<close> tells, from the history, whether the next driver call
  (\<^verbatim>\<open>Begin\<close>, \<^verbatim>\<open>Exec\<close>, \<^verbatim>\<open>Commit\<close>) fails and with which error.
\<close>

record PostgresStorage =
  pool_fault :: "event list \<Rightarrow> error option"

text \<open>
  \<^verbatim>\<open>INSERT INTO market_data ... ON CONFLICT (id) DO NOTHING\<close> on a table whose primary
  key is \<open>id\<close>: a row whose id is already there is left alone, a new one is added.
\<close>

definition insert_do_nothing :: "MarketData list \<Rightarrow> MarketData \<Rightarrow> MarketData list" where
  "insert_do_nothing rows d = (if ID d \<in> ID ` set rows then rows else rows @ [d])"

text \<open>The validation loop: the first invalid observation ends it with its index.\<close>

fun validate_loop :: "nat \<Rightarrow> MarketData list \<Rightarrow> error option" where
  "validate_loop i [] = None"
| "validate_loop i (d # ds) =
     (case validateMarketData d of
        Some err \<Rightarrow> Some (ErrorfIndex ''invalid market data at index %d: %w'' i err)
      | None \<Rightarrow> validate_loop (Suc i) ds)"

text \<open>
  The insert loop runs inside the transaction: \<open>rows\<close> is the table as the transaction
  sees it. A failing \<^verbatim>\<open>Exec\<close> ends the loop with the error.
\<close>

fun insert_loop :: "PostgresStorage \<Rightarrow> MarketData list \<Rightarrow> MarketData list \<Rightarrow> world
                     \<Rightarrow> error option \<times> MarketData list \<times> world" where
  "insert_loop s [] rows w = (None, rows, w)"
| "insert_loop s (d # ds) rows w =
     (case pool_fault s (trace w) of
        Some err \<Rightarrow> (Some (ErrorfWrap ''failed to insert market data: %w'' err), rows, emit (EvExec d) w)
      | None \<Rightarrow> insert_loop s ds (insert_do_nothing rows d) (emit (EvExec d) w))"

text \<open>
  \<^verbatim>\<open>SaveMarketData\<close>. The deferred \<^verbatim>\<open>tx.Rollback\<close> runs on every return after
  \<^verbatim>\<open>Begin\<close> succeeded; it discards the transaction's rows unless the commit went
  through. Only a successful commit changes the table.
\<close>

definition SaveMarketData :: "PostgresStorage \<Rightarrow> MarketData list \<Rightarrow> world \<Rightarrow> error option \<times> world" where
  "SaveMarketData s data w =
     (if data = [] then (None, w)
      else case validate_loop 0 data of
        Some err \<Rightarrow> (Some err, w)
      | None \<Rightarrow>
         (case pool_fault s (trace w) of
            Some err \<Rightarrow> (Some (ErrorfWrap ''failed to begin transaction: %w'' err), emit EvBegin w)
          | None \<Rightarrow>
             (case insert_loop s data (market_data w) (emit EvBegin w) of
                (Some err, rows, w1) \<Rightarrow> (Some err, emit EvRollback w1)
              | (None, rows, w1) \<Rightarrow>
                 (case pool_fault s (trace w1) of
                    Some err \<Rightarrow>
                      (Some (ErrorfWrap ''failed to commit transaction: %w'' err),
                       emit EvRollback (emit EvCommit w1))
                  | None \<Rightarrow>
                      (None,
                       emit EvRollback
                         (emit (EvLog Info ''Saved %d market data records'')
                            (emit EvCommit (w1\<lparr>market_data := rows\<rparr>))))))))"

section \<open>Bus sink (Kafka producer)\<close>

definition validateMarketDataForKafka :: "MarketData \<Rightarrow> error option" where
  "validateMarketDataForKafka d =
     (if Symbol d = [] then Some (Errorf ''symbol is required'')
      else if IsZero (Timestamp d) then Some (Errorf ''timestamp is required'')
      else if Source d = [] then Some (Errorf ''source is required'')
      else None)"

fun validate_loop_kafka :: "nat \<Rightarrow> MarketData list \<Rightarrow> error option" where
  "validate_loop_kafka i [] = None"
| "validate_loop_kafka i (d # ds) =
     (case validateMarketDataForKafka d of
        Some err \<Rightarrow> Some (ErrorfIndex ''invalid market data at index %d: %w'' i err)
      | None \<Rightarrow> validate_loop_kafka (Suc i) ds)"

text \<open>
  The client: whether \<^verbatim>\<open>json.Marshal\<close> fails on an observation, whether the next
  \<^verbatim>\<open>Produce\<close> fails, and how many messages \<^verbatim>\<open>Flush\<close> leaves unsent.
\<close>

record KafkaProducer =
  marshal_fault :: "MarketData \<Rightarrow> error option"
  produce_fault :: "event list \<Rightarrow> error option"
  flush_remaining :: "event list \<Rightarrow> nat"

fun produce_loop :: "KafkaProducer \<Rightarrow> MarketData list \<Rightarrow> nat \<Rightarrow> world \<Rightarrow> nat \<times> world" where
  "produce_loop p [] failedMessages w = (failedMessages, w)"
| "produce_loop p (d # ds) failedMessages w =
     (case marshal_fault p d of
        Some err \<Rightarrow>
          produce_loop p ds (Suc failedMessages)
            (emit (EvLog Error ''Failed to marshal market data: %v'') w)
      | None \<Rightarrow>
         (case produce_fault p (trace w) of
            Some err \<Rightarrow>
              produce_loop p ds (Suc failedMessages)
                (emit (EvLog Error ''Failed to produce message: %v'') (emit (EvProduce d) w))
          | None \<Rightarrow> produce_loop p ds failedMessages (emit (EvProduce d) w)))"

definition SendMarketData :: "KafkaProducer \<Rightarrow> MarketData list \<Rightarrow> world \<Rightarrow> error option \<times> world" where
  "SendMarketData p data w =
     (if data = [] then (None, w)
      else case validate_loop_kafka 0 data of
        Some err \<Rightarrow> (Some err, w)
      | None \<Rightarrow>
         (let (failed, w1) = produce_loop p data 0 w;
              remaining = flush_remaining p (trace w1);
              w2 = emit EvFlush w1;
              w3 = (if remaining > 0
                    then emit (EvLog Warn ''Failed to send %d messages to Kafka'') w2 else w2)
          in if failed + remaining > 0
             then (Some (Errorf ''failed to send %d out of %d messages to Kafka''), w3)
             else (None, emit (EvLog Info ''Sent %d market data messages to Kafka'') w3)))"

section \<open>Ingestion dispatcher (cmd/data-engine/main.go)\<close>

text \<open>The body of the inner loop of \<^verbatim>\<open>processData\<close>: one (symbol, source name) pair.\<close>

definition process_pair :: "DataSourceFactory \<Rightarrow> PostgresStorage \<Rightarrow> KafkaProducer
                             \<Rightarrow> string \<Rightarrow> string \<Rightarrow> world \<Rightarrow> world" where
  "process_pair factory db kafkaProducer symbol sourceName w =
     (let w0 = emit (EvVisit symbol sourceName) w in
      case GetDataSource factory sourceName of
        None \<Rightarrow> emit (EvLog Warn ''DataSource %s not found'') w0
      | Some source \<Rightarrow>
         (let w1 = emit (EvGetMarketData sourceName symbol) w0 in
          case GetMarketData source (trace w0) symbol of
            Inl err \<Rightarrow> emit (EvLog Error ''Failed to get market data from %s for %s: %v'') w1
          | Inr data \<Rightarrow>
              if data = [] then emit (EvLog Info ''No market data received from %s for %s'') w1
              else
               (case SaveMarketData db data w1 of
                  (Some err, w2) \<Rightarrow>
                    emit (EvLog Error ''Failed to save market data to database: %v'')
                      (emit (EvSave data (Some err)) w2)
                | (None, w2) \<Rightarrow>
                   (case SendMarketData kafkaProducer data (emit (EvSave data None) w2) of
                      (Some err, w3) \<Rightarrow>
                        emit (EvLog Error ''Failed to send market data to Kafka: %v'')
                          (emit (EvSend data (Some err)) w3)
                    | (None, w3) \<Rightarrow> emit (EvSend data None) w3))))"

text \<open>The inner loop ranges over the fixed list of the two source names.\<close>

definition sourceNames :: "string list" where
  "sourceNames = [''binance'', ''okx'']"

fun process_sources :: "DataSourceFactory \<Rightarrow> PostgresStorage \<Rightarrow> KafkaProducer
                         \<Rightarrow> string \<Rightarrow> string list \<Rightarrow> world \<Rightarrow> world" where
  "process_sources factory db kafkaProducer symbol [] w = w"
| "process_sources factory db kafkaProducer symbol (sourceName # rest) w =
     process_sources factory db kafkaProducer symbol rest
       (process_pair factory db kafkaProducer symbol sourceName w)"

fun process_symbols :: "DataSourceFactory \<Rightarrow> PostgresStorage \<Rightarrow> KafkaProducer
                         \<Rightarrow> string list \<Rightarrow> world \<Rightarrow> world" where
  "process_symbols factory db kafkaProducer [] w = w"
| "process_symbols factory db kafkaProducer (symbol # rest) w =
     process_symbols factory db kafkaProducer rest
       (process_sources factory db kafkaProducer symbol sourceNames w)"

text \<open>
  \<^verbatim>\<open>processData\<close> has no result: whatever happens in a pair, it ends by returning to
  its caller. The model returns the world it leaves behind.
\<close>

definition processData :: "DataSourceFactory \<Rightarrow> PostgresStorage \<Rightarrow> KafkaProducer
                            \<Rightarrow> string list \<Rightarrow> world \<Rightarrow> world" where
  "processData factory db kafkaProducer symbols w =
     emit (EvLog Info ''Market data processing completed'')
       (process_symbols factory db kafkaProducer symbols
          (emit (EvLog Info ''Processing market data...'') w))"

subsection \<open>Reading a trace\<close>

text \<open>The pairs visited, in order.\<close>

fun visited :: "event list \<Rightarrow> (string \<times> string) list" where
  "visited [] = []"
| "visited (EvVisit symbol sourceName # es) = (symbol, sourceName) # visited es"
| "visited (_ # es) = visited es"

text \<open>The driver and client calls of a trace.\<close>

fun is_insert :: "event \<Rightarrow> bool" where
  "is_insert (EvExec d) = True"
| "is_insert _ = False"

fun is_publish :: "event \<Rightarrow> bool" where
  "is_publish (EvSend data r) = True"
| "is_publish (EvProduce d) = True"
| "is_publish EvFlush = True"
| "is_publish _ = False"

text \<open>
  Storage before bus, as a monitor that reads the trace of a cycle pair by pair: within
  a pair, \<^verbatim>\<open>SendMarketData\<close> and the client calls under it are allowed only after
  \<^verbatim>\<open>SaveMarketData\<close> returned nil for the same batch, and never after it returned
  an error.
\<close>

datatype save_state = NotSaved | SaveFailed | Saved "MarketData list"

fun is_saved :: "save_state \<Rightarrow> bool" where
  "is_saved (Saved data) = True"
| "is_saved _ = False"

fun storage_before_bus :: "save_state \<Rightarrow> event list \<Rightarrow> bool" where
  "storage_before_bus st [] = True"
| "storage_before_bus st (EvVisit symbol sourceName # es) = storage_before_bus NotSaved es"
| "storage_before_bus st (EvSave data r # es) =
     storage_before_bus
       (if st = SaveFailed then SaveFailed
        else (case r of None \<Rightarrow> Saved data | Some err \<Rightarrow> SaveFailed)) es"
| "storage_before_bus st (EvSend data r # es) = (st = Saved data \<and> storage_before_bus st es)"
| "storage_before_bus st (EvProduce d # es) = (is_saved st \<and> storage_before_bus st es)"
| "storage_before_bus st (EvFlush # es) = (is_saved st \<and> storage_before_bus st es)"
| "storage_before_bus st (_ # es) = storage_before_bus st es"

text \<open>The events a call of \<^verbatim>\<open>SaveMarketData\<close>, respectively \<^verbatim>\<open>SendMarketData\<close>, can leave.\<close>

fun is_db_event :: "event \<Rightarrow> bool" where
  "is_db_event EvBegin = True"
| "is_db_event (EvExec d) = True"
| "is_db_event EvCommit = True"
| "is_db_event EvRollback = True"
| "is_db_event (EvLog l m) = True"
| "is_db_event _ = False"

fun is_bus_event :: "event \<Rightarrow> bool" where
  "is_bus_event (EvProduce d) = True"
| "is_bus_event EvFlush = True"
| "is_bus_event (EvLog l m) = True"
| "is_bus_event _ = False"

text \<open>A driver and a client that never fail, a driver that is down, an empty world.\<close>

definition db_ok :: PostgresStorage where
  "db_ok = \<lparr>pool_fault = (\<lambda>h. None)\<rparr>"

definition db_down :: PostgresStorage where
  "db_down = \<lparr>pool_fault = (\<lambda>h. Some (External ''connection refused''))\<rparr>"

definition kafka_ok :: KafkaProducer where
  "kafka_ok = \<lparr>marshal_fault = (\<lambda>d. None), produce_fault = (\<lambda>h. None), flush_remaining = (\<lambda>h. 0)\<rparr>"

definition w_empty :: world where
  "w_empty = \<lparr>market_data = [], trace = []\<rparr>"

section \<open>Scheduling loops\<close>

text \<open>
  \<^verbatim>\<open>startDataProcessing\<close> creates a ticker and loops on a \<^verbatim>\<open>select\<close> between
  \<^verbatim>\<open>ctx.Done()\<close> and \<^verbatim>\<open>ticker.C\<close>; \<^verbatim>\<open>processData\<close> is called in the ticker branch,
  synchronously, and nowhere else. The loop is modelled as a machine driven by what
  happens around it: the ticker fires (\<open>Tick\<close>), the running call of \<^verbatim>\<open>processData\<close>
  returns (\<open>CycleDone\<close>), the context is cancelled (\<open>Cancel\<close>).

  The channel of a \<^verbatim>\<open>time.Ticker\<close> has a buffer of one element and the runtime sends
  to it without blocking: a tick that finds the buffer full is dropped, a tick that
  finds it empty stays there until the loop receives it.
\<close>

datatype stimulus = Tick | CycleDone | Cancel

datatype phase = Waiting | InCycle | Exited

record loop_state =
  phase :: phase
  buffered :: bool
  cancelled :: bool
  cycles :: nat
  dropped :: nat

text \<open>
  \<open>phase\<close>: blocked in the \<^verbatim>\<open>select\<close>, inside \<^verbatim>\<open>processData\<close>, or returned.
  \<open>buffered\<close>: the ticker's channel holds a tick. \<open>cancelled\<close>: \<^verbatim>\<open>ctx.Done()\<close> is closed.
  \<open>cycles\<close>: the calls of \<^verbatim>\<open>processData\<close> started so far. \<open>dropped\<close>: the ticks
  dropped at the full buffer.

  The loop at its \<^verbatim>\<open>select\<close>: when both channels are ready Go picks one of them at
  random; \<open>prefer_done\<close> is that pick.
\<close>

definition at_select :: "bool \<Rightarrow> loop_state \<Rightarrow> loop_state" where
  "at_select prefer_done s =
     (if cancelled s \<and> (\<not> buffered s \<or> prefer_done) then s\<lparr>phase := Exited\<rparr>
      else if buffered s
        then s\<lparr>phase := InCycle, buffered := False, cycles := Suc (cycles s)\<rparr>
      else s\<lparr>phase := Waiting\<rparr>)"

fun loop_step :: "bool \<Rightarrow> loop_state \<Rightarrow> stimulus \<Rightarrow> loop_state" where
  "loop_step prefer_done s Tick =
     (case phase s of
        Waiting \<Rightarrow> at_select prefer_done (s\<lparr>buffered := True\<rparr>)
      | InCycle \<Rightarrow> (if buffered s then s\<lparr>dropped := Suc (dropped s)\<rparr> else s\<lparr>buffered := True\<rparr>)
      | Exited \<Rightarrow> s)"
| "loop_step prefer_done s CycleDone =
     (case phase s of
        InCycle \<Rightarrow> at_select prefer_done s
      | _ \<Rightarrow> s)"
| "loop_step prefer_done s Cancel =
     (case phase s of
        Waiting \<Rightarrow> at_select prefer_done (s\<lparr>cancelled := True\<rparr>)
      | _ \<Rightarrow> s\<lparr>cancelled := True\<rparr>)"

definition run_loop :: "bool \<Rightarrow> loop_state \<Rightarrow> stimulus list \<Rightarrow> loop_state" where
  "run_loop prefer_done s stimuli = foldl (loop_step prefer_done) s stimuli"

text \<open>
  \<^verbatim>\<open>startDataProcessing\<close>: the ticker is created and the loop goes straight to its
  \<^verbatim>\<open>select\<close>; no call of \<^verbatim>\<open>processData\<close> precedes the loop.
\<close>

definition startDataProcessing_init :: loop_state where
  "startDataProcessing_init =
     \<lparr>phase = Waiting, buffered = False, cancelled = False, cycles = 0, dropped = 0\<rparr>"

definition startDataProcessing :: "bool \<Rightarrow> stimulus list \<Rightarrow> loop_state" where
  "startDataProcessing prefer_done stimuli = run_loop prefer_done startDataProcessing_init stimuli"

text \<open>
  \<^verbatim>\<open>Scheduler.Start\<close> (internal/schedule/schedule.go) calls its job, \<^verbatim>\<open>fetchStockList\<close>,
  once before it creates its ticker; its loop, \<^verbatim>\<open>for range ticker.C\<close>, has no
  cancellation branch. Here \<open>cycles\<close> counts the calls of \<^verbatim>\<open>fetchStockList\<close>.
\<close>

definition Scheduler_Start_init :: loop_state where
  "Scheduler_Start_init =
     \<lparr>phase = Waiting, buffered = False, cancelled = False, cycles = 1, dropped = 0\<rparr>"

definition Scheduler_Start :: "stimulus list \<Rightarrow> loop_state" where
  "Scheduler_Start stimuli = run_loop False Scheduler_Start_init (filter (\<lambda>x. x \<noteq> Cancel) stimuli)"

section \<open>Example collaborators\<close>

text \<open>
  A source whose fetch fails for one symbol and answers one valid observation for every
  other, a source that always answers one valid observation, and a source that answers
  a batch of a valid and an invalid observation (price 0).
\<close>

definition src_binance :: DataSource where
  "src_binance =
     \<lparr>Name = ''binance'',
      GetMarketData = (\<lambda>h symbol.
         if symbol = ''ETHUSDT'' then Inl (External ''timeout'')
         else Inr [obs_valid\<lparr>ID := ''binance-'' @ symbol, Symbol := symbol\<rparr>])\<rparr>"

definition src_okx :: DataSource where
  "src_okx =
     \<lparr>Name = ''okx'',
      GetMarketData = (\<lambda>h symbol.
         Inr [obs_valid\<lparr>ID := ''okx-'' @ symbol, Symbol := symbol, Source := ''okx''\<rparr>])\<rparr>"

definition src_mixed :: DataSource where
  "src_mixed =
     \<lparr>Name = ''binance'',
      GetMarketData = (\<lambda>h symbol.
         Inr [obs_valid\<lparr>Symbol := symbol\<rparr>,
              obs_valid\<lparr>ID := ''a2'', Symbol := symbol, Price := Finite 0\<rparr>])\<rparr>"

definition factory_main :: DataSourceFactory where
  "factory_main = Register ''okx'' (Some src_okx) (Register ''binance'' (Some src_binance) NewDataSourceFactory)"

definition factory_mixed :: DataSourceFactory where
  "factory_mixed = Register ''binance'' (Some src_mixed) NewDataSourceFactory"

definition batch_mixed :: "MarketData list" where
  "batch_mixed = [obs_valid\<lparr>Symbol := ''BTCUSDT''\<rparr>,
                  obs_valid\<lparr>ID := ''a2'', Symbol := ''BTCUSDT'', Price := Finite 0\<rparr>]"

definition batch_okx :: "MarketData list" where
  "batch_okx = [obs_valid\<lparr>ID := ''okx-BTCUSDT'', Symbol := ''BTCUSDT'', Source := ''okx''\<rparr>]"

text \<open>
  A source that answers a batch of a valid observation and one whose price is NaN, and
  a Kafka client whose \<^verbatim>\<open>json.Marshal\<close> refuses, as that of Go does, a float that is
  NaN or infinite.
\<close>

definition batch_nan :: "MarketData list" where
  "batch_nan = [obs_valid, obs_nan_price\<lparr>ID := ''a2''\<rparr>]"

definition src_nan :: DataSource where
  "src_nan = \<lparr>Name = ''binance'', GetMarketData = (\<lambda>h symbol. Inr batch_nan)\<rparr>"

definition factory_nan :: DataSourceFactory where
  "factory_nan = Register ''binance'' (Some src_nan) NewDataSourceFactory"

fun is_Finite :: "float64 \<Rightarrow> bool" where
  "is_Finite (Finite x) = True"
| "is_Finite _ = False"

definition kafka_json :: KafkaProducer where
  "kafka_json =
     \<lparr>marshal_fault = (\<lambda>d. if is_Finite (Price d) \<and> is_Finite (Volume d) then None
                            else Some (External ''json: unsupported value'')),
      produce_fault = (\<lambda>h. None),
      flush_remaining = (\<lambda>h. 0)\<rparr>"

text \<open>The batches that \<^verbatim>\<open>SendMarketData\<close> published without error, in order.\<close>

fun sent_batches :: "event list \<Rightarrow> MarketData list list" where
  "sent_batches [] = []"
| "sent_batches (EvSend data None # es) = data # sent_batches es"
| "sent_batches (_ # es) = sent_batches es"

section \<open>Properties of the validator\<close>

lemma f64_le_zero_iff: "p \<noteq> NaN \<Longrightarrow> f64_le p (Finite 0) = (\<not> f64_lt (Finite 0) p)"
  by (cases p) auto

lemma f64_lt_zero_iff: "v \<noteq> NaN \<Longrightarrow> f64_lt v (Finite 0) = (\<not> f64_le (Finite 0) v)"
  by (cases v) auto

lemma all_fields: "(\<forall>f. P f) = (P FId \<and> P FSymbol \<and> P FPrice \<and> P FVolume \<and> P FTimestamp \<and> P FSource)"
proof
  assume a: "P FId \<and> P FSymbol \<and> P FPrice \<and> P FVolume \<and> P FTimestamp \<and> P FSource"
  show "\<forall>f. P f"
  proof
    fix f show "P f" using a by (cases f) simp_all
  qed
qed simp

text \<open>
  Away from NaN the validator follows the six rules: for every observation whose
  price and volume are numbers, validation succeeds if and only if the six field rules
  hold, and when it fails the error names the first violated field in the order id,
  symbol, price, volume, timestamp, source, and no other field.
\<close>

theorem validateMarketData_rules:
  assumes "Price d \<noteq> NaN" and "Volume d \<noteq> NaN"
  shows "(validateMarketData d = None \<longleftrightarrow> (\<forall>f. spec_rule f d))
       \<and> (\<forall>e. validateMarketData d = Some e \<longrightarrow>
            (\<forall>f. names_field e f \<longleftrightarrow> spec_first_violated d = Some f))"
proof -
  have p: "f64_le (Price d) (Finite 0) = (\<not> f64_lt (Finite 0) (Price d))"
    using assms(1) by (rule f64_le_zero_iff)
  have v: "f64_lt (Volume d) (Finite 0) = (\<not> f64_le (Finite 0) (Volume d))"
    using assms(2) by (rule f64_lt_zero_iff)
  have ok: "validateMarketData d = None \<longleftrightarrow> (\<forall>f. spec_rule f d)"
    unfolding all_fields by (simp add: validateMarketData_def p v)
  have nm: "names_field e f \<longleftrightarrow> spec_first_violated d = Some f"
    if "validateMarketData d = Some e" for e f
    using that
    by (cases f)
       (auto simp: validateMarketData_def spec_first_violated_def field_order_def p v
             split: if_splits)
  show ?thesis using ok nm by blast
qed

theorem validateMarketData_rules_witness:
  "validateMarketData obs_valid = None
   \<and> validateMarketData (obs_valid\<lparr>Volume := Finite (-1), Source := []\<rparr>)
       = Some (Errorf ''volume cannot be negative'')
   \<and> spec_first_violated (obs_valid\<lparr>Volume := Finite (-1), Source := []\<rparr>) = Some FVolume"
proof -
  let ?bad = "obs_valid\<lparr>Volume := Finite (-1), Source := []\<rparr>"
  have a: "Price obs_valid \<noteq> NaN" "Volume obs_valid \<noteq> NaN"
    by (simp_all add: obs_valid_def)
  have b: "Price ?bad \<noteq> NaN" "Volume ?bad \<noteq> NaN"
    by (simp_all add: obs_valid_def)
  have r: "\<forall>f. spec_rule f obs_valid"
    unfolding all_fields by (simp add: obs_valid_def IsZero_def)
  have e: "validateMarketData ?bad = Some (Errorf ''volume cannot be negative'')"
    by (simp add: validateMarketData_def obs_valid_def)
  have n: "names_field (Errorf ''volume cannot be negative'') FVolume"
    by simp
  have 1: "validateMarketData obs_valid = None"
    using validateMarketData_rules [OF a] r by blast
  have 2: "spec_first_violated ?bad = Some FVolume"
    using validateMarketData_rules [OF b] e n by blast
  show ?thesis using 1 2 e by blast
qed

text \<open>
  C1: validation is to succeed exactly when the six rules hold, and a failure is to
  name the first violated field. The code misses one case. At an observation whose
  price is NaN and whose other fields are fine, the first violated rule is the price
  rule (a NaN price is not greater than 0), but \<^verbatim>\<open>NaN <= 0\<close> is false, so the check
  whose message reads "price must be greater than 0" lets the observation through and
  validation succeeds.
\<close>

theorem validateMarketData_accepts_nan_price:
  "validateMarketData obs_nan_price = None
   \<and> \<not> spec_rule FPrice obs_nan_price
   \<and> spec_first_violated obs_nan_price = Some FPrice"
  by (simp add: validateMarketData_def obs_nan_price_def IsZero_def
        spec_first_violated_def field_order_def)

section \<open>Properties of the source registry\<close>

lemma GetDataSource_Register_same: "GetDataSource (Register n src f) n = src"
  by (simp add: GetDataSource_def Register_def)

lemma GetDataSource_Register_other: "n \<noteq> m \<Longrightarrow> GetDataSource (Register m src f) n = GetDataSource f n"
  by (simp add: GetDataSource_def Register_def)

lemma GetDataSource_register_all_absent:
  "n \<notin> fst ` set rs \<Longrightarrow> GetDataSource (register_all rs f) n = GetDataSource f n"
proof (induction rs arbitrary: f)
  case Nil
  then show ?case by simp
next
  case (Cons r rs)
  obtain m src where r: "r = (m, src)" by (cases r)
  from Cons.prems r have "n \<noteq> m" and "n \<notin> fst ` set rs" by auto
  then show ?case using Cons.IH r by (simp add: GetDataSource_Register_other)
qed

lemma GetDataSource_New: "GetDataSource NewDataSourceFactory n = None"
  by (simp add: GetDataSource_def NewDataSourceFactory_def)

text \<open>
  C8: after \<open>Register n src\<close> a lookup of \<open>n\<close> returns \<open>src\<close>; a later registration
  under the same name replaces the binding; registering another name leaves the
  lookup of \<open>n\<close> as it was; and in a factory built from the empty one by any sequence
  of registrations, the lookup of a name that was never registered returns nil
  (\<open>None\<close>). \<open>GetDataSource\<close> has no error result.
\<close>

theorem registry_lookup:
  "GetDataSource (Register n src f) n = src
   \<and> GetDataSource (Register n src2 (Register n src1 f)) n = src2
   \<and> (n \<noteq> m \<longrightarrow> GetDataSource (Register m src f) n = GetDataSource f n)
   \<and> (n \<notin> fst ` set rs \<longrightarrow> GetDataSource (register_all rs NewDataSourceFactory) n = None)"
  by (simp add: GetDataSource_Register_same GetDataSource_Register_other
        GetDataSource_register_all_absent GetDataSource_New)

theorem registry_lookup_witness:
  "''nonexistent'' \<notin> fst ` set [(''binance'', Some src_binance), (''okx'', Some src_okx)]
   \<and> ''binance'' \<noteq> ''okx''
   \<and> GetDataSource (register_all [(''binance'', Some src_binance), (''okx'', Some src_okx)]
        NewDataSourceFactory) ''nonexistent'' = None
   \<and> GetDataSource (Register ''okx'' (Some src_okx) (Register ''binance'' (Some src_binance) NewDataSourceFactory))
        ''binance'' = Some src_binance"
proof -
  have a: "''nonexistent'' \<notin> fst ` set [(''binance'', Some src_binance), (''okx'', Some src_okx)]"
    by simp
  have b: "''binance'' \<noteq> ''okx''" by simp
  note t = registry_lookup [of "''nonexistent''" "Some src_binance" NewDataSourceFactory "Some src_okx"
              "Some src_okx" "''okx''" "[(''binance'', Some src_binance), (''okx'', Some src_okx)]"]
  note u = registry_lookup [of "''binance''" "Some src_binance" NewDataSourceFactory "Some src_okx"
              "Some src_okx" "''okx''" "[]"]
  have c: "GetDataSource (Register ''okx'' (Some src_okx) (Register ''binance'' (Some src_binance) NewDataSourceFactory))
        ''binance'' = GetDataSource (Register ''binance'' (Some src_binance) NewDataSourceFactory) ''binance''"
    using registry_lookup [of "''binance''" "Some src_okx" "Register ''binance'' (Some src_binance) NewDataSourceFactory"
             "Some src_okx" "Some src_okx" "''okx''" "[]"] b by blast
  show ?thesis using a b t u c by simp
qed

section \<open>Properties of the synthetic exchange source\<close>

lemma env0_ok: "env_ok env0"
  by (simp add: env_ok_def env0_def t_2023_def)

text \<open>
  C10, as stated, claims a valid observation for every symbol. The source copies the
  requested symbol into the observation, so for the empty symbol the observation it
  returns fails validation.
\<close>

theorem GetMarketData_empty_symbol_counterexample:
  "validateMarketData (hd (fst (ExchangeDataSource_GetMarketData
       (NewExchangeDataSource ''binance'' ''key'' ''secret'') env0 [])))
     = Some (Errorf ''symbol is required'')"
  by (simp add: ExchangeDataSource_GetMarketData_def NewExchangeDataSource_def
        validateMarketData_def env0_def)

text \<open>
  C10, amended: for every non-empty symbol and every exchange source whose name is
  non-empty, \<open>GetMarketData\<close> returns no error and exactly one observation, whose symbol
  is the requested one, whose source is the name of the data source, and which passes
  \<open>validateMarketData\<close>, so that the validation loop of \<open>SaveMarketData\<close> accepts the
  batch.
\<close>

theorem GetMarketData_valid:
  assumes "env_ok en" and "symbol \<noteq> []" and "name e \<noteq> []"
  shows "\<exists>d. ExchangeDataSource_GetMarketData e en symbol = ([d], None)
           \<and> Symbol d = symbol \<and> Source d = name e \<and> validateMarketData d = None
           \<and> validate_loop 0 [d] = None"
proof -
  have "length (uuid_New en 0) = 36" using assms(1) by (simp add: env_ok_def)
  then have u: "uuid_New en 0 \<noteq> []" by auto
  have t: "time_Now en 1 \<noteq> 0" using assms(1) by (simp add: env_ok_def)
  have r0: "0 \<le> rand_Float64 en 0" and r1: "0 \<le> rand_Float64 en 1"
    using assms(1) by (simp_all add: env_ok_def)
  have p: "\<not> 1000 + rand_Float64 en 0 * 100 \<le> 0" using r0 by simp
  have v: "\<not> 10000 + rand_Float64 en 1 * 1000 < 0" using r1 by simp
  show ?thesis
    using u t p v assms(2,3)
    by (simp add: ExchangeDataSource_GetMarketData_def validateMarketData_def IsZero_def)
qed

theorem GetMarketData_valid_witness:
  "env_ok env0 \<and> ''BTCUSDT'' \<noteq> [] \<and> name (NewExchangeDataSource ''binance'' ''key'' ''secret'') \<noteq> []
   \<and> (\<exists>d. ExchangeDataSource_GetMarketData (NewExchangeDataSource ''binance'' ''key'' ''secret'') env0 ''BTCUSDT''
             = ([d], None)
          \<and> Symbol d = ''BTCUSDT'' \<and> Source d = ''binance'' \<and> validateMarketData d = None)"
proof -
  have a: "''BTCUSDT'' \<noteq> []" by simp
  have b: "name (NewExchangeDataSource ''binance'' ''key'' ''secret'') \<noteq> []"
    by (simp add: NewExchangeDataSource_def)
  have n: "name (NewExchangeDataSource ''binance'' ''key'' ''secret'') = ''binance''"
    by (simp add: NewExchangeDataSource_def)
  obtain d where d: "ExchangeDataSource_GetMarketData (NewExchangeDataSource ''binance'' ''key'' ''secret'')
                       env0 ''BTCUSDT'' = ([d], None)"
      "Symbol d = ''BTCUSDT''"
      "Source d = name (NewExchangeDataSource ''binance'' ''key'' ''secret'')"
      "validateMarketData d = None"
    using GetMarketData_valid [OF env0_ok a b] by blast
  show ?thesis using env0_ok a b d n by auto
qed


lemma hist_loop_sorted:
  "sorted_wrt (<) (map Timestamp data) \<Longrightarrow> (\<forall>d \<in> set data. Timestamp d < current)
   \<Longrightarrow> sorted_wrt (<) (map Timestamp (hist_loop e en symbol endT current i data))"
proof (induction e en symbol endT current i data rule: hist_loop.induct)
  case (1 e en symbol endT current i data)
  show ?case
  proof (cases "Before current endT")
    case True
    let ?row = "\<lparr>ID = uuid_New en i, Symbol = symbol,
                       Price = Finite (1000 + rand_Float64 en (2 * i) * 100),
                       Volume = Finite (10000 + rand_Float64 en (2 * i + 1) * 1000),
                       Timestamp = current, Source = name e\<rparr>"
    have s: "sorted_wrt (<) (map Timestamp (data @ [?row]))"
      using "1.prems" by (auto simp: sorted_wrt_append)
    have b: "\<forall>d \<in> set (data @ [?row]). Timestamp d < Add current Hour"
      using "1.prems"(2) by (auto simp: Add_def Hour_def)
    show ?thesis
      using "1.IH" [OF True s b] True by (subst hist_loop.simps) simp
  next
    case False
    then show ?thesis using "1.prems"(1) by (subst hist_loop.simps) simp
  qed
qed

lemma hist_loop_range:
  "(\<forall>d \<in> set data. start \<le> Timestamp d \<and> Timestamp d < endT) \<Longrightarrow> start \<le> current
   \<Longrightarrow> (\<forall>d \<in> set (hist_loop e en symbol endT current i data). start \<le> Timestamp d \<and> Timestamp d < endT)"
proof (induction e en symbol endT current i data rule: hist_loop.induct)
  case (1 e en symbol endT current i data)
  show ?case
  proof (cases "Before current endT")
    case True
    let ?row = "\<lparr>ID = uuid_New en i, Symbol = symbol,
                       Price = Finite (1000 + rand_Float64 en (2 * i) * 100),
                       Volume = Finite (10000 + rand_Float64 en (2 * i + 1) * 1000),
                       Timestamp = current, Source = name e\<rparr>"
    have a: "\<forall>d \<in> set (data @ [?row]). start \<le> Timestamp d \<and> Timestamp d < endT"
      using "1.prems" True by (auto simp: Before_def)
    have b: "start \<le> Add current Hour"
      using "1.prems"(2) by (simp add: Add_def Hour_def)
    show ?thesis
      using "1.IH" [OF True a b] True by (subst hist_loop.simps) simp
  next
    case False
    then show ?thesis using "1.prems"(1) by (subst hist_loop.simps) simp
  qed
qed

lemma hist_loop_keeps:
  "\<exists>rest. hist_loop e en symbol endT current i data = data @ rest"
proof (induction e en symbol endT current i data rule: hist_loop.induct)
  case (1 e en symbol endT current i data)
  show ?case
  proof (cases "Before current endT")
    case True
    let ?row = "\<lparr>ID = uuid_New en i, Symbol = symbol,
                       Price = Finite (1000 + rand_Float64 en (2 * i) * 100),
                       Volume = Finite (10000 + rand_Float64 en (2 * i + 1) * 1000),
                       Timestamp = current, Source = name e\<rparr>"
    have unf: "hist_loop e en symbol endT current i data
                 = hist_loop e en symbol endT (Add current Hour) (Suc i) (data @ [?row])"
      using True by (subst hist_loop.simps) (simp del: hist_loop.simps)
    obtain rest where "hist_loop e en symbol endT (Add current Hour) (Suc i) (data @ [?row])
                         = (data @ [?row]) @ rest"
      using "1.IH" [OF True] by blast
    then have "hist_loop e en symbol endT current i data = data @ (?row # rest)"
      using unf by (simp del: hist_loop.simps)
    then show ?thesis by blast
  next
    case False
    then have "hist_loop e en symbol endT current i data = data @ []"
      by (subst hist_loop.simps) (simp del: hist_loop.simps)
    then show ?thesis by blast
  qed
qed

lemma hist_loop_first:
  assumes "Before start endT"
  shows "\<exists>d rest. hist_loop e en symbol endT start 0 [] = d # rest \<and> Timestamp d = start"
proof -
  let ?row = "\<lparr>ID = uuid_New en 0, Symbol = symbol,
                       Price = Finite (1000 + rand_Float64 en (2 * 0) * 100),
                       Volume = Finite (10000 + rand_Float64 en (2 * 0 + 1) * 1000),
                       Timestamp = start, Source = name e\<rparr>"
  have unf: "hist_loop e en symbol endT start 0 []
               = hist_loop e en symbol endT (Add start Hour) (Suc 0) ([] @ [?row])"
    using assms by (subst hist_loop.simps) (simp del: hist_loop.simps)
  obtain rest where "hist_loop e en symbol endT (Add start Hour) (Suc 0) ([] @ [?row])
                       = ([] @ [?row]) @ rest"
    using hist_loop_keeps by blast
  then have "hist_loop e en symbol endT start 0 [] = ?row # rest"
    using unf by (simp del: hist_loop.simps)
  moreover have "Timestamp ?row = start" by simp
  ultimately show ?thesis by blast
qed

text \<open>
  C9: when the start and the end time both parse and the start is before the end,
  \<open>GetHistoricalData\<close> returns no error and a list of observations whose timestamps
  are strictly ascending and lie at or after the start and strictly before the end;
  the list is not empty and its first observation is at the start.
\<close>

theorem GetHistoricalData_ascending_in_range:
  assumes "time_Parse en startTime = Some start" and "time_Parse en endTime = Some endT"
      and "Before start endT"
  shows "snd (ExchangeDataSource_GetHistoricalData e en symbol startTime endTime) = None
       \<and> sorted_wrt (<) (map Timestamp (fst (ExchangeDataSource_GetHistoricalData e en symbol startTime endTime)))
       \<and> (\<forall>d \<in> set (fst (ExchangeDataSource_GetHistoricalData e en symbol startTime endTime)).
             start \<le> Timestamp d \<and> Timestamp d < endT)
       \<and> (\<exists>d rest. fst (ExchangeDataSource_GetHistoricalData e en symbol startTime endTime) = d # rest
             \<and> Timestamp d = start)"
proof -
  have eq: "ExchangeDataSource_GetHistoricalData e en symbol startTime endTime
              = (hist_loop e en symbol endT start 0 [], None)"
    using assms(1,2) by (simp add: ExchangeDataSource_GetHistoricalData_def)
  have s: "sorted_wrt (<) (map Timestamp (hist_loop e en symbol endT start 0 []))"
    by (rule hist_loop_sorted) simp_all
  have r: "\<forall>d \<in> set (hist_loop e en symbol endT start 0 []). start \<le> Timestamp d \<and> Timestamp d < endT"
    by (rule hist_loop_range) simp_all
  have f: "\<exists>d rest. hist_loop e en symbol endT start 0 [] = d # rest \<and> Timestamp d = start"
    using assms(3) by (rule hist_loop_first)
  show ?thesis using eq s r f by (simp del: hist_loop.simps)
qed

lemma hist_two_hours:
  "map Timestamp (fst (ExchangeDataSource_GetHistoricalData (NewExchangeDataSource ''binance'' ''key'' ''secret'')
          env0 ''BTCUSDT'' ''2023-01-01T00:00:00Z'' ''2023-01-01T02:00:00Z''))
     = [t_2023, t_2023 + Hour]"
  by (simp add: ExchangeDataSource_GetHistoricalData_def env0_def Before_def Add_def Hour_def t_2023_def)

theorem GetHistoricalData_ascending_in_range_witness:
  "time_Parse env0 ''2023-01-01T00:00:00Z'' = Some t_2023
   \<and> time_Parse env0 ''2023-01-01T02:00:00Z'' = Some (t_2023 + 2 * Hour)
   \<and> Before t_2023 (t_2023 + 2 * Hour)
   \<and> map Timestamp (fst (ExchangeDataSource_GetHistoricalData (NewExchangeDataSource ''binance'' ''key'' ''secret'')
          env0 ''BTCUSDT'' ''2023-01-01T00:00:00Z'' ''2023-01-01T02:00:00Z''))
       = [t_2023, t_2023 + Hour]
   \<and> sorted_wrt (<) [t_2023, t_2023 + Hour]
   \<and> snd (ExchangeDataSource_GetHistoricalData (NewExchangeDataSource ''binance'' ''key'' ''secret'')
          env0 ''BTCUSDT'' ''2023-01-01T00:00:00Z'' ''2023-01-01T02:00:00Z'') = None"
proof -
  have a: "time_Parse env0 ''2023-01-01T00:00:00Z'' = Some t_2023"
    by (simp add: env0_def)
  have b: "time_Parse env0 ''2023-01-01T02:00:00Z'' = Some (t_2023 + 2 * Hour)"
    by (simp add: env0_def)
  have c: "Before t_2023 (t_2023 + 2 * Hour)"
    by (simp add: Before_def Hour_def)
  note t = GetHistoricalData_ascending_in_range [OF a b c,
             of "NewExchangeDataSource ''binance'' ''key'' ''secret''" "''BTCUSDT''"]
  show ?thesis using t a b c hist_two_hours by simp
qed

section \<open>Properties of the storage sink\<close>

lemma trace_emit [simp]: "trace (emit ev w) = trace w @ [ev]"
  by (simp add: emit_def)

lemma market_data_emit [simp]: "market_data (emit ev w) = market_data w"
  by (simp add: emit_def)

lemma validate_loop_invalid:
  "\<exists>d \<in> set data. validateMarketData d \<noteq> None \<Longrightarrow> \<exists>err. validate_loop i data = Some err"
proof (induction data arbitrary: i)
  case Nil
  then show ?case by simp
next
  case (Cons d ds)
  show ?case
  proof (cases "validateMarketData d")
    case None
    with Cons.prems have "\<exists>d \<in> set ds. validateMarketData d \<noteq> None" by auto
    then show ?thesis using Cons.IH None by simp
  next
    case (Some err)
    then show ?thesis by simp
  qed
qed

lemma validate_loop_valid:
  "validate_loop i data = None \<longleftrightarrow> (\<forall>d \<in> set data. validateMarketData d = None)"
  by (induction data arbitrary: i) (auto split: option.splits)

lemma insert_loop_world:
  "insert_loop s data rows w = (r, rows', w') \<Longrightarrow>
     market_data w' = market_data w \<and> (\<exists>es. trace w' = trace w @ es \<and> list_all is_db_event es)"
proof (induction data arbitrary: rows w)
  case Nil
  then show ?case by simp
next
  case (Cons d ds)
  show ?case
  proof (cases "pool_fault s (trace w)")
    case None
    with Cons.prems have "insert_loop s ds (insert_do_nothing rows d) (emit (EvExec d) w) = (r, rows', w')"
      by simp
    from Cons.IH [OF this] show ?thesis by auto
  next
    case (Some err)
    with Cons.prems show ?thesis by auto
  qed
qed

lemma insert_loop_rows:
  "insert_loop s data rows w = (None, rows', w') \<Longrightarrow> rows' = foldl insert_do_nothing rows data"
proof (induction data arbitrary: rows w)
  case Nil
  then show ?case by simp
next
  case (Cons d ds)
  then show ?case by (cases "pool_fault s (trace w)") auto
qed

lemma insert_loop_no_fault:
  "\<forall>es. pool_fault s (trace w @ es) = None \<Longrightarrow>
     \<exists>w'. insert_loop s data rows w = (None, foldl insert_do_nothing rows data, w')
          \<and> (\<exists>es. trace w' = trace w @ es)"
proof (induction data arbitrary: rows w)
  case Nil
  then show ?case by simp
next
  case (Cons d ds)
  have 0: "pool_fault s (trace w) = None" using Cons.prems [rule_format, of "[]"] by simp
  have "\<forall>es. pool_fault s (trace (emit (EvExec d) w) @ es) = None"
    using Cons.prems by simp
  from Cons.IH [OF this, of "insert_do_nothing rows d"] show ?case using 0 by auto
qed

lemma ids_insert_do_nothing: "ID ` set (insert_do_nothing rows d) = insert (ID d) (ID ` set rows)"
  by (auto simp: insert_do_nothing_def)

lemma ids_foldl_insert: "ID ` set (foldl insert_do_nothing rows data) = ID ` set rows \<union> ID ` set data"
  by (induction data arbitrary: rows) (auto simp: ids_insert_do_nothing)

lemma foldl_insert_present:
  "ID ` set data \<subseteq> ID ` set rows \<Longrightarrow> foldl insert_do_nothing rows data = rows"
  by (induction data arbitrary: rows) (auto simp: insert_do_nothing_def)

lemma SaveMarketData_table:
  "market_data (snd (SaveMarketData s data w)) = market_data w
   \<or> (fst (SaveMarketData s data w) = None
       \<and> market_data (snd (SaveMarketData s data w)) = foldl insert_do_nothing (market_data w) data)"
proof (cases "data = [] \<or> validate_loop 0 data \<noteq> None \<or> pool_fault s (trace w) \<noteq> None")
  case True
  then show ?thesis by (auto simp: SaveMarketData_def split: option.splits)
next
  case False
  obtain r rows w1 where il: "insert_loop s data (market_data w) (emit EvBegin w) = (r, rows, w1)"
    by (cases "insert_loop s data (market_data w) (emit EvBegin w)") auto
  from insert_loop_world [OF il] have md: "market_data w1 = market_data w" by simp
  show ?thesis
  proof (cases r)
    case (Some err)
    then show ?thesis using False il md by (auto simp: SaveMarketData_def)
  next
    case None
    with il have rows: "rows = foldl insert_do_nothing (market_data w) data"
      by (simp add: insert_loop_rows)
    show ?thesis
      using False il md None rows
      by (cases "pool_fault s (trace w1)") (auto simp: SaveMarketData_def)
  qed
qed

lemma SaveMarketData_success_ids:
  assumes "SaveMarketData s data w = (None, w1)"
  shows "ID ` set data \<subseteq> ID ` set (market_data w1)"
proof (cases "data = []")
  case True
  then show ?thesis by simp
next
  case False
  have v: "validate_loop 0 data = None"
    using assms False by (auto simp: SaveMarketData_def split: option.splits)
  have b: "pool_fault s (trace w) = None"
    using assms False v by (auto simp: SaveMarketData_def split: option.splits)
  obtain r rows w' where il: "insert_loop s data (market_data w) (emit EvBegin w) = (r, rows, w')"
    by (cases "insert_loop s data (market_data w) (emit EvBegin w)") auto
  have r: "r = None"
    using assms False v b il by (cases r) (auto simp: SaveMarketData_def)
  have rows: "rows = foldl insert_do_nothing (market_data w) data"
    using il r by (simp add: insert_loop_rows)
  have "market_data w1 = rows"
    using assms False v b il r
    by (cases "pool_fault s (trace w')") (auto simp: SaveMarketData_def)
  then show ?thesis using rows by (simp add: ids_foldl_insert)
qed

lemma SaveMarketData_no_fault:
  assumes "validate_loop 0 data = None" and "\<forall>es. pool_fault s (trace w @ es) = None"
  shows "fst (SaveMarketData s data w) = None"
proof (cases "data = []")
  case True
  then show ?thesis by (simp add: SaveMarketData_def)
next
  case False
  have b: "pool_fault s (trace w) = None" using assms(2) [rule_format, of "[]"] by simp
  have "\<forall>es. pool_fault s (trace (emit EvBegin w) @ es) = None" using assms(2) by simp
  from insert_loop_no_fault [OF this, of data "market_data w"]
  obtain w' es where il: "insert_loop s data (market_data w) (emit EvBegin w)
                          = (None, foldl insert_do_nothing (market_data w) data, w')"
    and tr: "trace w' = trace (emit EvBegin w) @ es" by blast
  have c: "pool_fault s (trace w') = None"
    using assms(2) [rule_format, of "EvBegin # es"] tr by simp
  show ?thesis using False assms(1) b il c by (simp add: SaveMarketData_def)
qed

text \<open>
  C7: when a call of \<open>SaveMarketData\<close> with a batch has returned nil, a second call
  with the same batch leaves the table as the first call left it, whatever the driver
  does; and if the driver reports no fault during the second call, the second call
  returns nil as well. A single observation is the batch of one element.
\<close>

theorem SaveMarketData_idempotent:
  assumes "SaveMarketData s data w = (None, w1)"
  shows "market_data (snd (SaveMarketData s data w1)) = market_data w1
       \<and> ((\<forall>es. pool_fault s (trace w1 @ es) = None) \<longrightarrow> fst (SaveMarketData s data w1) = None)"
proof -
  have ids: "ID ` set data \<subseteq> ID ` set (market_data w1)"
    using assms by (rule SaveMarketData_success_ids)
  have same: "market_data (snd (SaveMarketData s data w1)) = market_data w1"
    using SaveMarketData_table [of s data w1] foldl_insert_present [OF ids] by auto
  have v: "validate_loop 0 data = None"
  proof (cases "data = []")
    case True
    then show ?thesis by simp
  next
    case False
    then show ?thesis using assms by (auto simp: SaveMarketData_def split: option.splits)
  qed
  show ?thesis using same SaveMarketData_no_fault [OF v] by blast
qed

lemma save_once:
  "SaveMarketData db_ok [obs_valid] w_empty =
     (None, \<lparr>market_data = [obs_valid],
             trace = [EvBegin, EvExec obs_valid, EvCommit, EvLog Info ''Saved %d market data records'', EvRollback]\<rparr>)"
  by (simp add: SaveMarketData_def validateMarketData_def obs_valid_def db_ok_def w_empty_def
        emit_def insert_do_nothing_def IsZero_def)

theorem SaveMarketData_idempotent_witness:
  "SaveMarketData db_ok [obs_valid] w_empty =
     (None, \<lparr>market_data = [obs_valid],
             trace = [EvBegin, EvExec obs_valid, EvCommit, EvLog Info ''Saved %d market data records'', EvRollback]\<rparr>)
   \<and> market_data (snd (SaveMarketData db_ok [obs_valid]
        \<lparr>market_data = [obs_valid],
         trace = [EvBegin, EvExec obs_valid, EvCommit, EvLog Info ''Saved %d market data records'', EvRollback]\<rparr>))
       = [obs_valid]
   \<and> fst (SaveMarketData db_ok [obs_valid]
        \<lparr>market_data = [obs_valid],
         trace = [EvBegin, EvExec obs_valid, EvCommit, EvLog Info ''Saved %d market data records'', EvRollback]\<rparr>)
       = None"
proof -
  have nf: "\<forall>es. pool_fault db_ok (trace \<lparr>market_data = [obs_valid],
             trace = [EvBegin, EvExec obs_valid, EvCommit, EvLog Info ''Saved %d market data records'', EvRollback]\<rparr> @ es) = None"
    by (simp add: db_ok_def)
  show ?thesis
    using SaveMarketData_idempotent [OF save_once] nf save_once by simp
qed

section \<open>Properties of the dispatcher\<close>

lemma SaveMarketData_trace:
  "\<exists>es. trace (snd (SaveMarketData s data w)) = trace w @ es \<and> list_all is_db_event es"
proof (cases "data = [] \<or> validate_loop 0 data \<noteq> None \<or> pool_fault s (trace w) \<noteq> None")
  case True
  then show ?thesis by (auto simp: SaveMarketData_def split: option.splits)
next
  case False
  obtain r rows w1 where il: "insert_loop s data (market_data w) (emit EvBegin w) = (r, rows, w1)"
    by (cases "insert_loop s data (market_data w) (emit EvBegin w)") auto
  from insert_loop_world [OF il] obtain es
    where es: "trace w1 = trace w @ EvBegin # es" "list_all is_db_event es" by auto
  show ?thesis
  proof (cases r)
    case (Some err)
    then show ?thesis using False il es by (auto simp: SaveMarketData_def)
  next
    case None
    show ?thesis
      using False il es None
      by (cases "pool_fault s (trace w1)") (auto simp: SaveMarketData_def)
  qed
qed

lemma produce_loop_world:
  "produce_loop p data n w = (n', w') \<Longrightarrow>
     market_data w' = market_data w \<and> (\<exists>es. trace w' = trace w @ es \<and> list_all is_bus_event es)"
proof (induction data arbitrary: n w)
  case Nil
  then show ?case by simp
next
  case (Cons d ds)
  show ?case
  proof (cases "marshal_fault p d")
    case (Some err)
    with Cons.prems have "produce_loop p ds (Suc n)
        (emit (EvLog Error ''Failed to marshal market data: %v'') w) = (n', w')" by simp
    from Cons.IH [OF this] show ?thesis by auto
  next
    case None
    show ?thesis
    proof (cases "produce_fault p (trace w)")
      case (Some err)
      with None Cons.prems have "produce_loop p ds (Suc n)
          (emit (EvLog Error ''Failed to produce message: %v'') (emit (EvProduce d) w)) = (n', w')"
        by simp
      from Cons.IH [OF this] show ?thesis by auto
    next
      case None2: None
      with None Cons.prems have "produce_loop p ds n (emit (EvProduce d) w) = (n', w')" by simp
      from Cons.IH [OF this] show ?thesis by auto
    qed
  qed
qed

lemma SendMarketData_world:
  "market_data (snd (SendMarketData p data w)) = market_data w
   \<and> (\<exists>es. trace (snd (SendMarketData p data w)) = trace w @ es \<and> list_all is_bus_event es)"
proof (cases "data = [] \<or> validate_loop_kafka 0 data \<noteq> None")
  case True
  then show ?thesis by (auto simp: SendMarketData_def split: option.splits)
next
  case False
  obtain n w1 where pl: "produce_loop p data 0 w = (n, w1)"
    by (cases "produce_loop p data 0 w") auto
  from produce_loop_world [OF pl] obtain es
    where es: "market_data w1 = market_data w" "trace w1 = trace w @ es" "list_all is_bus_event es"
    by auto
  show ?thesis using False pl es by (auto simp: SendMarketData_def Let_def)
qed

lemma visited_append: "visited (es @ es') = visited es @ visited es'"
proof (induction es)
  case Nil
  then show ?case by simp
next
  case (Cons ev es)
  then show ?case by (cases ev) simp_all
qed

lemma visited_db: "list_all is_db_event es \<Longrightarrow> visited es = []"
proof (induction es)
  case Nil
  then show ?case by simp
next
  case (Cons ev es)
  then show ?case by (cases ev) simp_all
qed

lemma visited_bus: "list_all is_bus_event es \<Longrightarrow> visited es = []"
proof (induction es)
  case Nil
  then show ?case by simp
next
  case (Cons ev es)
  then show ?case by (cases ev) simp_all
qed

lemma no_publish_db: "list_all is_db_event es \<Longrightarrow> list_all (\<lambda>ev. \<not> is_publish ev) es"
proof (induction es)
  case Nil
  then show ?case by simp
next
  case (Cons ev es)
  then show ?case by (cases ev) simp_all
qed

lemma sbb_db: "list_all is_db_event es \<Longrightarrow> storage_before_bus st (es @ rest) = storage_before_bus st rest"
proof (induction es)
  case Nil
  then show ?case by simp
next
  case (Cons ev es)
  then show ?case by (cases ev) simp_all
qed

lemma sbb_bus:
  "list_all is_bus_event es \<Longrightarrow>
     storage_before_bus (Saved data) (es @ rest) = storage_before_bus (Saved data) rest"
proof (induction es)
  case Nil
  then show ?case by simp
next
  case (Cons ev es)
  then show ?case by (cases ev) simp_all
qed

lemma sbb_append_visit:
  "storage_before_bus st (pre @ EvVisit s n # es)
     = (storage_before_bus st pre \<and> storage_before_bus NotSaved es)"
proof (induction pre arbitrary: st)
  case Nil
  then show ?case by simp
next
  case (Cons ev pre)
  then show ?case by (cases ev) simp_all
qed

lemma sbb_append_log:
  "storage_before_bus st (pre @ [EvLog l m]) = storage_before_bus st pre"
proof (induction pre arbitrary: st)
  case Nil
  then show ?case by simp
next
  case (Cons ev pre)
  then show ?case by (cases ev) simp_all
qed

lemma process_pair_trace:
  "\<exists>es. trace (process_pair f db k s n w) = trace w @ EvVisit s n # es
        \<and> visited es = [] \<and> storage_before_bus NotSaved es"
proof (cases "GetDataSource f n")
  case None
  then show ?thesis by (simp add: process_pair_def)
next
  case (Some source)
  let ?w0 = "emit (EvVisit s n) w"
  let ?w1 = "emit (EvGetMarketData n s) ?w0"
  show ?thesis
  proof (cases "GetMarketData source (trace ?w0) s")
    case (Inl err)
    then show ?thesis using Some by (simp add: process_pair_def Let_def)
  next
    case (Inr data)
    show ?thesis
    proof (cases "data = []")
      case True
      then show ?thesis using Some Inr by (simp add: process_pair_def Let_def)
    next
      case False
      obtain r w2 where sv: "SaveMarketData db data ?w1 = (r, w2)"
        by (cases "SaveMarketData db data ?w1") auto
      from SaveMarketData_trace [of db data ?w1] sv obtain es1
        where es1: "trace w2 = trace ?w1 @ es1" "list_all is_db_event es1" by auto
      show ?thesis
      proof (cases r)
        case (Some err)
        have "trace (process_pair f db k s n w)
                = trace w @ EvVisit s n # (EvGetMarketData n s # es1
                    @ [EvSave data (Some err), EvLog Error ''Failed to save market data to database: %v''])"
          using \<open>GetDataSource f n = Some source\<close> Inr False sv Some es1
          by (simp add: process_pair_def Let_def)
        moreover have "visited (EvGetMarketData n s # es1
                    @ [EvSave data (Some err), EvLog Error ''Failed to save market data to database: %v'']) = []"
          using es1(2) by (simp add: visited_append visited_db)
        moreover have "storage_before_bus NotSaved (EvGetMarketData n s # es1
                    @ [EvSave data (Some err), EvLog Error ''Failed to save market data to database: %v''])"
          using es1(2) by (simp add: sbb_db)
        ultimately show ?thesis by blast
      next
        case None
        let ?w2 = "emit (EvSave data None) w2"
        obtain r3 w3 where sd: "SendMarketData k data ?w2 = (r3, w3)"
          by (cases "SendMarketData k data ?w2") auto
        from SendMarketData_world [of k data ?w2] sd obtain es2
          where es2: "trace w3 = trace ?w2 @ es2" "list_all is_bus_event es2" by auto
        let ?tail = "(case r3 of None \<Rightarrow> [] | Some err \<Rightarrow> [EvLog Error ''Failed to send market data to Kafka: %v''])"
        have "trace (process_pair f db k s n w)
                = trace w @ EvVisit s n # (EvGetMarketData n s # es1 @ EvSave data None # es2
                    @ EvSend data r3 # ?tail)"
          using \<open>GetDataSource f n = Some source\<close> Inr False sv None sd es1 es2
          by (cases r3) (simp_all add: process_pair_def Let_def)
        moreover have "visited (EvGetMarketData n s # es1 @ EvSave data None # es2
                    @ EvSend data r3 # ?tail) = []"
          using es1(2) es2(2) by (cases r3) (simp_all add: visited_append visited_db visited_bus)
        moreover have "storage_before_bus NotSaved (EvGetMarketData n s # es1 @ EvSave data None # es2
                    @ EvSend data r3 # ?tail)"
          using es1(2) es2(2) by (cases r3) (simp_all add: sbb_db sbb_bus)
        ultimately show ?thesis by blast
      qed
    qed
  qed
qed

lemma process_sources_trace:
  "\<exists>es. trace (process_sources f db k s ns w) = trace w @ es
        \<and> visited es = map (Pair s) ns
        \<and> (\<forall>st pre. storage_before_bus st pre \<longrightarrow> storage_before_bus st (pre @ es))"
proof (induction ns arbitrary: w)
  case Nil
  then show ?case by simp
next
  case (Cons n ns)
  obtain es1 where 1: "trace (process_pair f db k s n w) = trace w @ EvVisit s n # es1"
      "visited es1 = []" "storage_before_bus NotSaved es1"
    using process_pair_trace by blast
  obtain es2 where 2: "trace (process_sources f db k s ns (process_pair f db k s n w))
        = trace (process_pair f db k s n w) @ es2"
      "visited es2 = map (Pair s) ns"
      "\<forall>st pre. storage_before_bus st pre \<longrightarrow> storage_before_bus st (pre @ es2)"
    using Cons.IH by blast
  have a: "trace (process_sources f db k s (n # ns) w) = trace w @ ((EvVisit s n # es1) @ es2)"
    using 1(1) 2(1) by simp
  have b: "visited ((EvVisit s n # es1) @ es2) = map (Pair s) (n # ns)"
    using 1(2) 2(2) by (simp add: visited_append)
  have c: "storage_before_bus st (pre @ ((EvVisit s n # es1) @ es2))"
    if "storage_before_bus st pre" for st pre
  proof -
    have "storage_before_bus st (pre @ EvVisit s n # es1)"
      using that 1(3) by (simp add: sbb_append_visit)
    then have "storage_before_bus st ((pre @ EvVisit s n # es1) @ es2)"
      using 2(3) by blast
    then show ?thesis by simp
  qed
  show ?case using a b c by blast
qed

lemma process_symbols_trace:
  "\<exists>es. trace (process_symbols f db k symbols w) = trace w @ es
        \<and> visited es = List.product symbols sourceNames
        \<and> (\<forall>st pre. storage_before_bus st pre \<longrightarrow> storage_before_bus st (pre @ es))"
proof (induction symbols arbitrary: w)
  case Nil
  then show ?case by simp
next
  case (Cons s ss)
  let ?w1 = "process_sources f db k s sourceNames w"
  obtain es1 where 1: "trace ?w1 = trace w @ es1"
      "visited es1 = map (Pair s) sourceNames"
      "\<forall>st pre. storage_before_bus st pre \<longrightarrow> storage_before_bus st (pre @ es1)"
    using process_sources_trace by blast
  obtain es2 where 2: "trace (process_symbols f db k ss ?w1) = trace ?w1 @ es2"
      "visited es2 = List.product ss sourceNames"
      "\<forall>st pre. storage_before_bus st pre \<longrightarrow> storage_before_bus st (pre @ es2)"
    using Cons.IH by blast
  have a: "trace (process_symbols f db k (s # ss) w) = trace w @ (es1 @ es2)"
    using 1(1) 2(1) by simp
  have b: "visited (es1 @ es2) = List.product (s # ss) sourceNames"
    using 1(2) 2(2) by (simp add: visited_append)
  have c: "storage_before_bus st (pre @ (es1 @ es2))" if "storage_before_bus st pre" for st pre
  proof -
    have "storage_before_bus st (pre @ es1)" using that 1(3) by blast
    then have "storage_before_bus st ((pre @ es1) @ es2)" using 2(3) by blast
    then show ?thesis by simp
  qed
  show ?case using a b c by blast
qed

lemma processData_trace:
  "\<exists>es. trace (processData f db k symbols w)
          = trace w @ EvLog Info ''Processing market data...'' # es
              @ [EvLog Info ''Market data processing completed'']
        \<and> visited es = List.product symbols sourceNames
        \<and> (\<forall>st pre. storage_before_bus st pre \<longrightarrow> storage_before_bus st (pre @ es))"
proof -
  let ?w0 = "emit (EvLog Info ''Processing market data...'') w"
  obtain es where es: "trace (process_symbols f db k symbols ?w0) = trace ?w0 @ es"
      "visited es = List.product symbols sourceNames"
      "\<forall>st pre. storage_before_bus st pre \<longrightarrow> storage_before_bus st (pre @ es)"
    using process_symbols_trace by blast
  have "trace (processData f db k symbols w)
          = trace w @ EvLog Info ''Processing market data...'' # es
              @ [EvLog Info ''Market data processing completed'']"
    using es(1) by (simp add: processData_def)
  then show ?thesis using es(2,3) by blast
qed

lemma process_sources_foldl:
  "process_sources f db k s ns w = foldl (\<lambda>w n. process_pair f db k s n w) w ns"
  by (induction ns arbitrary: w) simp_all

lemma process_symbols_foldl:
  "process_symbols f db k symbols w
     = foldl (\<lambda>w (s, n). process_pair f db k s n w) w (List.product symbols sourceNames)"
proof (induction symbols arbitrary: w)
  case Nil
  then show ?case by simp
next
  case (Cons s ss)
  have "foldl (\<lambda>w (s, n). process_pair f db k s n w) w (map (Pair s) ns)
          = foldl (\<lambda>w n. process_pair f db k s n w) w ns" for ns w
    by (induction ns arbitrary: w) simp_all
  then show ?case using Cons.IH by (simp add: process_sources_foldl)
qed

text \<open>
  C4: whatever the factory, the sources, the driver and the client do, a cycle enters
  the loop body for every pair of the product of the symbols (outer, in the given
  order) and the two source names (inner, in their order), in that order, and the
  cycle is the left-to-right composition of the pair steps: the step of a later pair
  runs on the world the earlier pairs left, whatever happened in them. \<open>processData\<close>
  returns a world and nothing else; no failure of a pair leaves it.
\<close>

theorem processData_visits_every_pair:
  "visited (trace (processData f db k symbols w))
     = visited (trace w) @ List.product symbols [''binance'', ''okx'']
   \<and> processData f db k symbols w
     = emit (EvLog Info ''Market data processing completed'')
         (foldl (\<lambda>w (symbol, sourceName). process_pair f db k symbol sourceName w)
            (emit (EvLog Info ''Processing market data...'') w)
            (List.product symbols [''binance'', ''okx'']))"
proof -
  obtain es where es: "trace (processData f db k symbols w)
          = trace w @ EvLog Info ''Processing market data...'' # es
              @ [EvLog Info ''Market data processing completed'']"
      "visited es = List.product symbols sourceNames"
    using processData_trace by blast
  have 1: "visited (trace (processData f db k symbols w))
     = visited (trace w) @ List.product symbols [''binance'', ''okx'']"
    using es by (simp add: visited_append sourceNames_def)
  have 2: "processData f db k symbols w
     = emit (EvLog Info ''Market data processing completed'')
         (foldl (\<lambda>w (symbol, sourceName). process_pair f db k symbol sourceName w)
            (emit (EvLog Info ''Processing market data...'') w)
            (List.product symbols [''binance'', ''okx'']))"
    by (simp add: processData_def process_symbols_foldl sourceNames_def)
  show ?thesis using 1 2 by blast
qed

text \<open>
  C3: in the events of a cycle, within every pair, \<open>SendMarketData\<close> (and every call
  of the Kafka client) comes only after \<open>SaveMarketData\<close> has returned nil for the
  same batch; and when \<open>SaveMarketData\<close> returns an error for the batch of a pair, the
  events of that pair contain no publish at all.
\<close>

theorem storage_before_bus_holds:
  "storage_before_bus NotSaved (drop (length (trace w)) (trace (processData f db k symbols w)))
   \<and> (GetDataSource f n = Some source
        \<and> GetMarketData source (trace w @ [EvVisit s n]) s = Inr data \<and> data \<noteq> []
        \<and> fst (SaveMarketData db data (emit (EvGetMarketData n s) (emit (EvVisit s n) w))) = Some err
      \<longrightarrow> list_all (\<lambda>ev. \<not> is_publish ev)
            (drop (length (trace w)) (trace (process_pair f db k s n w))))"
proof -
  obtain es where es: "trace (processData f db k symbols w)
          = trace w @ EvLog Info ''Processing market data...'' # es
              @ [EvLog Info ''Market data processing completed'']"
      "\<forall>st pre. storage_before_bus st pre \<longrightarrow> storage_before_bus st (pre @ es)"
    using processData_trace by blast
  have "storage_before_bus NotSaved [EvLog Info ''Processing market data...'']"
    by simp
  then have "storage_before_bus NotSaved ([EvLog Info ''Processing market data...''] @ es)"
    using es(2) by blast
  then have "storage_before_bus NotSaved (([EvLog Info ''Processing market data...''] @ es)
                @ [EvLog Info ''Market data processing completed''])"
    by (simp only: sbb_append_log)
  then have 1: "storage_before_bus NotSaved (drop (length (trace w)) (trace (processData f db k symbols w)))"
    using es(1) by simp
  have 2: "list_all (\<lambda>ev. \<not> is_publish ev) (drop (length (trace w)) (trace (process_pair f db k s n w)))"
    if a: "GetDataSource f n = Some source"
      and b: "GetMarketData source (trace w @ [EvVisit s n]) s = Inr data" and c: "data \<noteq> []"
      and d: "fst (SaveMarketData db data (emit (EvGetMarketData n s) (emit (EvVisit s n) w))) = Some err"
  proof -
    let ?w1 = "emit (EvGetMarketData n s) (emit (EvVisit s n) w)"
    obtain w2 where sv: "SaveMarketData db data ?w1 = (Some err, w2)"
      using d by (cases "SaveMarketData db data ?w1") auto
    from SaveMarketData_trace [of db data ?w1] sv obtain es1
      where es1: "trace w2 = trace ?w1 @ es1" "list_all is_db_event es1" by auto
    have "trace (process_pair f db k s n w)
            = trace w @ (EvVisit s n # EvGetMarketData n s # es1
                @ [EvSave data (Some err), EvLog Error ''Failed to save market data to database: %v''])"
      using a b c sv es1 by (simp add: process_pair_def Let_def)
    then show ?thesis using no_publish_db [OF es1(2)] by simp
  qed
  show ?thesis using 1 2 by blast
qed

text \<open>
  The fail-closed path: when a batch contains an observation that
  \<open>validateMarketData\<close> rejects, \<open>SaveMarketData\<close> returns an error and leaves the
  world as it found it (no driver call, the table unchanged); and the pair step for
  which a source returned this batch only records the visit, the fetch, the failed
  save and the log line: the table is unchanged, nothing is inserted and nothing is
  published.
\<close>

theorem fail_closed_batch:
  assumes "\<exists>d \<in> set data. validateMarketData d \<noteq> None"
  shows "\<exists>err. (\<forall>w. SaveMarketData db data w = (Some err, w))
           \<and> (\<forall>w. GetDataSource f n = Some source
                    \<and> GetMarketData source (trace w @ [EvVisit s n]) s = Inr data
                  \<longrightarrow> process_pair f db k s n w
                        = w\<lparr>trace := trace w @ [EvVisit s n, EvGetMarketData n s, EvSave data (Some err),
                              EvLog Error ''Failed to save market data to database: %v'']\<rparr>
                      \<and> market_data (process_pair f db k s n w) = market_data w
                      \<and> list_all (\<lambda>ev. \<not> is_insert ev \<and> \<not> is_publish ev)
                           (drop (length (trace w)) (trace (process_pair f db k s n w))))"
proof -
  obtain err where err: "validate_loop 0 data = Some err"
    using validate_loop_invalid [OF assms] by blast
  have ne: "data \<noteq> []" using assms by auto
  have sv: "SaveMarketData db data w = (Some err, w)" for w
    using err ne by (simp add: SaveMarketData_def)
  have pp: "process_pair f db k s n w
              = w\<lparr>trace := trace w @ [EvVisit s n, EvGetMarketData n s, EvSave data (Some err),
                    EvLog Error ''Failed to save market data to database: %v'']\<rparr>"
    if "GetDataSource f n = Some source" and "GetMarketData source (trace w @ [EvVisit s n]) s = Inr data"
    for w
    using that ne sv by (simp add: process_pair_def Let_def emit_def)
  have rest: "market_data (process_pair f db k s n w) = market_data w
      \<and> list_all (\<lambda>ev. \<not> is_insert ev \<and> \<not> is_publish ev)
           (drop (length (trace w)) (trace (process_pair f db k s n w)))"
    if "GetDataSource f n = Some source" and "GetMarketData source (trace w @ [EvVisit s n]) s = Inr data"
    for w
    using pp [OF that] by simp
  show ?thesis using sv pp rest by blast
qed

lemma mixed_lookup: "GetDataSource factory_mixed ''binance'' = Some src_mixed"
  by (simp add: factory_mixed_def GetDataSource_def Register_def)

lemma mixed_fetch: "GetMarketData src_mixed h ''BTCUSDT'' = Inr batch_mixed"
  by (simp add: src_mixed_def batch_mixed_def)

lemma mixed_invalid: "\<exists>d \<in> set batch_mixed. validateMarketData d \<noteq> None"
  by (simp add: batch_mixed_def validateMarketData_def obs_valid_def)

lemma mixed_save:
  "SaveMarketData db_ok batch_mixed w_empty
     = (Some (ErrorfIndex ''invalid market data at index %d: %w'' 1
               (Errorf ''price must be greater than 0'')), w_empty)"
  by (simp add: SaveMarketData_def batch_mixed_def validateMarketData_def obs_valid_def IsZero_def)

theorem fail_closed_batch_witness:
  "(\<exists>d \<in> set batch_mixed. validateMarketData d \<noteq> None)
   \<and> GetDataSource factory_mixed ''binance'' = Some src_mixed
   \<and> GetMarketData src_mixed (trace w_empty @ [EvVisit ''BTCUSDT'' ''binance'']) ''BTCUSDT'' = Inr batch_mixed
   \<and> SaveMarketData db_ok batch_mixed w_empty
       = (Some (ErrorfIndex ''invalid market data at index %d: %w'' 1
                 (Errorf ''price must be greater than 0'')), w_empty)
   \<and> process_pair factory_mixed db_ok kafka_ok ''BTCUSDT'' ''binance'' w_empty
       = \<lparr>market_data = [],
          trace = [EvVisit ''BTCUSDT'' ''binance'', EvGetMarketData ''binance'' ''BTCUSDT'',
                   EvSave batch_mixed (Some (ErrorfIndex ''invalid market data at index %d: %w'' 1
                      (Errorf ''price must be greater than 0''))),
                   EvLog Error ''Failed to save market data to database: %v'']\<rparr>"
proof -
  from fail_closed_batch [OF mixed_invalid, of db_ok factory_mixed "''binance''" src_mixed "''BTCUSDT''" kafka_ok]
  obtain err where e1: "\<forall>w. SaveMarketData db_ok batch_mixed w = (Some err, w)"
    and e2: "\<forall>w. GetDataSource factory_mixed ''binance'' = Some src_mixed
                    \<and> GetMarketData src_mixed (trace w @ [EvVisit ''BTCUSDT'' ''binance'']) ''BTCUSDT'' = Inr batch_mixed
                  \<longrightarrow> process_pair factory_mixed db_ok kafka_ok ''BTCUSDT'' ''binance'' w
                        = w\<lparr>trace := trace w @ [EvVisit ''BTCUSDT'' ''binance'',
                              EvGetMarketData ''binance'' ''BTCUSDT'', EvSave batch_mixed (Some err),
                              EvLog Error ''Failed to save market data to database: %v'']\<rparr>
                      \<and> market_data (process_pair factory_mixed db_ok kafka_ok ''BTCUSDT'' ''binance'' w) = market_data w
                      \<and> list_all (\<lambda>ev. \<not> is_insert ev \<and> \<not> is_publish ev)
                           (drop (length (trace w)) (trace (process_pair factory_mixed db_ok kafka_ok ''BTCUSDT'' ''binance'' w)))"
    by blast
  have err: "err = ErrorfIndex ''invalid market data at index %d: %w'' 1 (Errorf ''price must be greater than 0'')"
    using e1 [rule_format, of w_empty] mixed_save by simp
  have "process_pair factory_mixed db_ok kafka_ok ''BTCUSDT'' ''binance'' w_empty
          = w_empty\<lparr>trace := trace w_empty @ [EvVisit ''BTCUSDT'' ''binance'',
                              EvGetMarketData ''binance'' ''BTCUSDT'', EvSave batch_mixed (Some err),
                              EvLog Error ''Failed to save market data to database: %v'']\<rparr>"
    using e2 [rule_format, of w_empty] mixed_lookup mixed_fetch by blast
  then have pp: "process_pair factory_mixed db_ok kafka_ok ''BTCUSDT'' ''binance'' w_empty
       = \<lparr>market_data = [],
          trace = [EvVisit ''BTCUSDT'' ''binance'', EvGetMarketData ''binance'' ''BTCUSDT'',
                   EvSave batch_mixed (Some (ErrorfIndex ''invalid market data at index %d: %w'' 1
                      (Errorf ''price must be greater than 0''))),
                   EvLog Error ''Failed to save market data to database: %v'']\<rparr>"
    using err by (simp add: w_empty_def)
  show ?thesis using mixed_invalid mixed_lookup mixed_fetch mixed_save pp by blast
qed

text \<open>
  C2: a batch with an observation that violates a validation rule is to reach neither
  sink. The path above depends on the validator, and the validator lets a NaN price
  through. For the batch of a valid observation and one with a NaN price, which
  violates the price rule, \<open>SaveMarketData\<close> returns nil and both rows are in the
  table; the pair step then calls \<open>SendMarketData\<close>, which hands the valid observation
  to the Kafka client (the NaN one cannot be marshalled) and returns an error.
\<close>

theorem nan_batch_reaches_both_sinks:
  "\<not> spec_rule FPrice (obs_nan_price\<lparr>ID := ''a2''\<rparr>)
   \<and> GetDataSource factory_nan ''binance'' = Some src_nan
   \<and> GetMarketData src_nan [EvVisit ''BTCUSDT'' ''binance''] ''BTCUSDT'' = Inr batch_nan
   \<and> fst (SaveMarketData db_ok batch_nan w_empty) = None
   \<and> market_data (snd (SaveMarketData db_ok batch_nan w_empty)) = batch_nan
   \<and> process_pair factory_nan db_ok kafka_json ''BTCUSDT'' ''binance'' w_empty
       = \<lparr>market_data = batch_nan,
          trace = [EvVisit ''BTCUSDT'' ''binance'', EvGetMarketData ''binance'' ''BTCUSDT'',
                   EvBegin, EvExec obs_valid, EvExec (obs_nan_price\<lparr>ID := ''a2''\<rparr>), EvCommit,
                   EvLog Info ''Saved %d market data records'', EvRollback,
                   EvSave batch_nan None,
                   EvProduce obs_valid,
                   EvLog Error ''Failed to marshal market data: %v'',
                   EvFlush,
                   EvSend batch_nan (Some (Errorf ''failed to send %d out of %d messages to Kafka'')),
                   EvLog Error ''Failed to send market data to Kafka: %v'']\<rparr>"
proof -
  have r: "\<not> spec_rule FPrice (obs_nan_price\<lparr>ID := ''a2''\<rparr>)"
    by (simp add: obs_nan_price_def)
  have l: "GetDataSource factory_nan ''binance'' = Some src_nan"
    by (simp add: factory_nan_def GetDataSource_def Register_def)
  have g: "GetMarketData src_nan h ''BTCUSDT'' = Inr batch_nan" for h
    by (simp add: src_nan_def)
  have v: "validate_loop 0 batch_nan = None"
    by (simp add: batch_nan_def validateMarketData_def obs_valid_def obs_nan_price_def IsZero_def)
  have ne: "batch_nan \<noteq> []" by (simp add: batch_nan_def)
  have rows: "insert_do_nothing (insert_do_nothing [] obs_valid) (obs_nan_price\<lparr>ID := ''a2''\<rparr>)
                = batch_nan"
    by (simp add: insert_do_nothing_def batch_nan_def obs_valid_def obs_nan_price_def)
  have sv: "SaveMarketData db_ok batch_nan \<lparr>market_data = [], trace = t\<rparr>
              = (None, \<lparr>market_data = batch_nan,
                        trace = t @ [EvBegin, EvExec obs_valid, EvExec (obs_nan_price\<lparr>ID := ''a2''\<rparr>),
                                     EvCommit, EvLog Info ''Saved %d market data records'', EvRollback]\<rparr>)"
    for t
    using v ne rows
    by (simp add: SaveMarketData_def db_ok_def emit_def)
       (simp add: batch_nan_def db_ok_def emit_def)
  have vk: "validate_loop_kafka 0 batch_nan = None"
    by (simp add: batch_nan_def validateMarketDataForKafka_def obs_valid_def obs_nan_price_def IsZero_def)
  have m1: "marshal_fault kafka_json obs_valid = None"
    by (simp add: kafka_json_def obs_valid_def)
  have m2: "marshal_fault kafka_json (obs_nan_price\<lparr>ID := ''a2''\<rparr>)
              = Some (External ''json: unsupported value'')"
    by (simp add: kafka_json_def obs_nan_price_def)
  have pf: "produce_fault kafka_json h = None" and fr: "flush_remaining kafka_json h = 0" for h
    by (simp_all add: kafka_json_def)
  have pl: "produce_loop kafka_json batch_nan 0 \<lparr>market_data = rs, trace = t\<rparr>
              = (1, \<lparr>market_data = rs,
                      trace = t @ [EvProduce obs_valid, EvLog Error ''Failed to marshal market data: %v'']\<rparr>)"
    for rs t
    using m1 m2 pf by (simp add: batch_nan_def emit_def)
  have sd: "SendMarketData kafka_json batch_nan \<lparr>market_data = rs, trace = t\<rparr>
              = (Some (Errorf ''failed to send %d out of %d messages to Kafka''),
                 \<lparr>market_data = rs,
                  trace = t @ [EvProduce obs_valid, EvLog Error ''Failed to marshal market data: %v'',
                               EvFlush]\<rparr>)"
    for rs t
    using vk ne pl fr by (simp add: SendMarketData_def emit_def)
  have pp: "process_pair factory_nan db_ok kafka_json ''BTCUSDT'' ''binance'' w_empty
       = \<lparr>market_data = batch_nan,
          trace = [EvVisit ''BTCUSDT'' ''binance'', EvGetMarketData ''binance'' ''BTCUSDT'',
                   EvBegin, EvExec obs_valid, EvExec (obs_nan_price\<lparr>ID := ''a2''\<rparr>), EvCommit,
                   EvLog Info ''Saved %d market data records'', EvRollback,
                   EvSave batch_nan None,
                   EvProduce obs_valid,
                   EvLog Error ''Failed to marshal market data: %v'',
                   EvFlush,
                   EvSend batch_nan (Some (Errorf ''failed to send %d out of %d messages to Kafka'')),
                   EvLog Error ''Failed to send market data to Kafka: %v'']\<rparr>"
    using l g ne sv sd by (simp add: process_pair_def Let_def emit_def w_empty_def)
  have s0: "SaveMarketData db_ok batch_nan w_empty
              = (None, \<lparr>market_data = batch_nan,
                        trace = [] @ [EvBegin, EvExec obs_valid, EvExec (obs_nan_price\<lparr>ID := ''a2''\<rparr>),
                                     EvCommit, EvLog Info ''Saved %d market data records'', EvRollback]\<rparr>)"
    using sv [of "[]"] by (simp add: w_empty_def)
  show ?thesis using r l g s0 pp by simp
qed

lemma main_lookup_okx: "GetDataSource factory_main ''okx'' = Some src_okx"
  by (simp add: factory_main_def GetDataSource_def Register_def)

lemma okx_fetch: "GetMarketData src_okx h ''BTCUSDT'' = Inr batch_okx"
  by (simp add: src_okx_def batch_okx_def)

lemma down_save:
  "fst (SaveMarketData db_down batch_okx (emit (EvGetMarketData ''okx'' ''BTCUSDT'') (emit (EvVisit ''BTCUSDT'' ''okx'') w_empty)))
     = Some (ErrorfWrap ''failed to begin transaction: %w'' (External ''connection refused''))"
  by (simp add: SaveMarketData_def batch_okx_def validateMarketData_def obs_valid_def IsZero_def db_down_def)

lemma down_pair:
  "trace (process_pair factory_main db_down kafka_ok ''BTCUSDT'' ''okx'' w_empty)
     = [EvVisit ''BTCUSDT'' ''okx'', EvGetMarketData ''okx'' ''BTCUSDT'', EvBegin,
        EvSave batch_okx (Some (ErrorfWrap ''failed to begin transaction: %w'' (External ''connection refused''))),
        EvLog Error ''Failed to save market data to database: %v'']"
  using main_lookup_okx okx_fetch
  by (simp add: process_pair_def Let_def SaveMarketData_def batch_okx_def validateMarketData_def
        obs_valid_def IsZero_def db_down_def w_empty_def emit_def)

theorem storage_before_bus_holds_witness:
  "GetDataSource factory_main ''okx'' = Some src_okx
   \<and> GetMarketData src_okx (trace w_empty @ [EvVisit ''BTCUSDT'' ''okx'']) ''BTCUSDT'' = Inr batch_okx
   \<and> batch_okx \<noteq> []
   \<and> fst (SaveMarketData db_down batch_okx
            (emit (EvGetMarketData ''okx'' ''BTCUSDT'') (emit (EvVisit ''BTCUSDT'' ''okx'') w_empty)))
       = Some (ErrorfWrap ''failed to begin transaction: %w'' (External ''connection refused''))
   \<and> list_all (\<lambda>ev. \<not> is_publish ev)
        (drop (length (trace w_empty)) (trace (process_pair factory_main db_down kafka_ok ''BTCUSDT'' ''okx'' w_empty)))
   \<and> trace (process_pair factory_main db_down kafka_ok ''BTCUSDT'' ''okx'' w_empty)
     = [EvVisit ''BTCUSDT'' ''okx'', EvGetMarketData ''okx'' ''BTCUSDT'', EvBegin,
        EvSave batch_okx (Some (ErrorfWrap ''failed to begin transaction: %w'' (External ''connection refused''))),
        EvLog Error ''Failed to save market data to database: %v'']"
proof -
  have ne: "batch_okx \<noteq> []" by (simp add: batch_okx_def)
  note t = storage_before_bus_holds [of w_empty factory_main db_down kafka_ok "[]" "''okx''" src_okx
             "''BTCUSDT''" batch_okx
             "ErrorfWrap ''failed to begin transaction: %w'' (External ''connection refused'')"]
  have "list_all (\<lambda>ev. \<not> is_publish ev)
        (drop (length (trace w_empty)) (trace (process_pair factory_main db_down kafka_ok ''BTCUSDT'' ''okx'' w_empty)))"
    using t main_lookup_okx okx_fetch ne down_save by blast
  then show ?thesis using main_lookup_okx okx_fetch ne down_save down_pair by blast
qed

lemma cycle_table:
  "market_data (processData factory_main db_ok kafka_ok [''ETHUSDT'', ''BTCUSDT''] w_empty)
     = [obs_valid\<lparr>ID := ''okx-ETHUSDT'', Symbol := ''ETHUSDT'', Source := ''okx''\<rparr>,
        obs_valid\<lparr>ID := ''binance-BTCUSDT'', Symbol := ''BTCUSDT''\<rparr>,
        obs_valid\<lparr>ID := ''okx-BTCUSDT'', Symbol := ''BTCUSDT'', Source := ''okx''\<rparr>]"
  by (simp add: processData_def sourceNames_def process_pair_def Let_def factory_main_def
        GetDataSource_def Register_def NewDataSourceFactory_def src_binance_def src_okx_def
        SaveMarketData_def SendMarketData_def validateMarketData_def validateMarketDataForKafka_def
        obs_valid_def IsZero_def db_ok_def kafka_ok_def w_empty_def emit_def insert_do_nothing_def)


lemma cycle_visits_eval:
  "List.product [''ETHUSDT'', ''BTCUSDT''] [''binance'', ''okx'']
     = [(''ETHUSDT'', ''binance''), (''ETHUSDT'', ''okx''), (''BTCUSDT'', ''binance''), (''BTCUSDT'', ''okx'')]"
  by simp

lemma cycle_sent:
  "sent_batches (trace (processData factory_main db_ok kafka_ok [''ETHUSDT'', ''BTCUSDT''] w_empty))
     = [[obs_valid\<lparr>ID := ''okx-ETHUSDT'', Symbol := ''ETHUSDT'', Source := ''okx''\<rparr>],
        [obs_valid\<lparr>ID := ''binance-BTCUSDT'', Symbol := ''BTCUSDT''\<rparr>],
        [obs_valid\<lparr>ID := ''okx-BTCUSDT'', Symbol := ''BTCUSDT'', Source := ''okx''\<rparr>]]"
  by (simp add: processData_def sourceNames_def process_pair_def Let_def factory_main_def
        GetDataSource_def Register_def NewDataSourceFactory_def src_binance_def src_okx_def
        SaveMarketData_def SendMarketData_def validateMarketData_def validateMarketDataForKafka_def
        obs_valid_def IsZero_def db_ok_def kafka_ok_def w_empty_def emit_def insert_do_nothing_def)

theorem processData_visits_every_pair_witness:
  "visited (trace (processData factory_main db_ok kafka_ok [''ETHUSDT'', ''BTCUSDT''] w_empty))
     = [(''ETHUSDT'', ''binance''), (''ETHUSDT'', ''okx''), (''BTCUSDT'', ''binance''), (''BTCUSDT'', ''okx'')]
   \<and> GetMarketData src_binance [] ''ETHUSDT'' = Inl (External ''timeout'')
   \<and> market_data (processData factory_main db_ok kafka_ok [''ETHUSDT'', ''BTCUSDT''] w_empty)
     = [obs_valid\<lparr>ID := ''okx-ETHUSDT'', Symbol := ''ETHUSDT'', Source := ''okx''\<rparr>,
        obs_valid\<lparr>ID := ''binance-BTCUSDT'', Symbol := ''BTCUSDT''\<rparr>,
        obs_valid\<lparr>ID := ''okx-BTCUSDT'', Symbol := ''BTCUSDT'', Source := ''okx''\<rparr>]
   \<and> sent_batches (trace (processData factory_main db_ok kafka_ok [''ETHUSDT'', ''BTCUSDT''] w_empty))
     = [[obs_valid\<lparr>ID := ''okx-ETHUSDT'', Symbol := ''ETHUSDT'', Source := ''okx''\<rparr>],
        [obs_valid\<lparr>ID := ''binance-BTCUSDT'', Symbol := ''BTCUSDT''\<rparr>],
        [obs_valid\<lparr>ID := ''okx-BTCUSDT'', Symbol := ''BTCUSDT'', Source := ''okx''\<rparr>]]"
proof -
  have v: "visited (trace w_empty) = []" by (simp add: w_empty_def)
  have f: "GetMarketData src_binance [] ''ETHUSDT'' = Inl (External ''timeout'')"
    by (simp add: src_binance_def)
  have "visited (trace (processData factory_main db_ok kafka_ok [''ETHUSDT'', ''BTCUSDT''] w_empty))
     = [(''ETHUSDT'', ''binance''), (''ETHUSDT'', ''okx''), (''BTCUSDT'', ''binance''), (''BTCUSDT'', ''okx'')]"
    using processData_visits_every_pair
            [of factory_main db_ok kafka_ok "[''ETHUSDT'', ''BTCUSDT'']" w_empty, THEN conjunct1]
      v cycle_visits_eval by simp
  then show ?thesis using f cycle_table cycle_sent by blast
qed

section \<open>Properties of the scheduling loops\<close>

lemma run_loop_append:
  "run_loop pd s (xs @ ys) = run_loop pd (run_loop pd s xs) ys"
  by (simp add: run_loop_def)

lemma ticks_on_full_buffer:
  "phase s = InCycle \<Longrightarrow> buffered s \<Longrightarrow>
     run_loop pd s (replicate n Tick) = s\<lparr>dropped := dropped s + n\<rparr>"
proof (induction n arbitrary: s)
  case 0
  then show ?case by (simp add: run_loop_def)
next
  case (Suc n)
  have step: "loop_step pd s Tick = s\<lparr>dropped := Suc (dropped s)\<rparr>"
    using Suc.prems by simp
  have "run_loop pd s (replicate (Suc n) Tick)
          = run_loop pd (s\<lparr>dropped := Suc (dropped s)\<rparr>) (replicate n Tick)"
    using step by (simp add: run_loop_def)
  also have "\<dots> = (s\<lparr>dropped := Suc (dropped s)\<rparr>)\<lparr>dropped := dropped (s\<lparr>dropped := Suc (dropped s)\<rparr>) + n\<rparr>"
    using Suc.prems by (intro Suc.IH) simp_all
  finally show ?case by simp
qed

text \<open>
  C5, as stated, says that a tick that fires while a cycle is executing is dropped and
  that no catch-up cycle runs. The loop has no guard of its own; the first tick that
  fires during a cycle waits in the ticker's buffer, and the loop receives it as soon
  as the cycle returns. After a first tick, two ticks during the cycle and the end of
  the cycle, a second cycle is already running: one tick was dropped, one caught up.
\<close>

theorem startDataProcessing_catch_up_counterexample:
  "cycles (startDataProcessing False [Tick, Tick, Tick, CycleDone]) = 2
   \<and> phase (startDataProcessing False [Tick, Tick, Tick, CycleDone]) = InCycle
   \<and> dropped (startDataProcessing False [Tick, Tick, Tick, CycleDone]) = 1"
  by (simp add: startDataProcessing_def startDataProcessing_init_def run_loop_def at_select_def)

text \<open>
  C5, amended: a tick that fires while a cycle is executing starts no cycle (cycles do
  not overlap); the first such tick is kept (the ticker's buffer of one) and every
  further one is dropped; when the cycle returns with a tick kept, exactly one catch-up
  cycle starts at once, and with no tick kept the loop goes back to waiting.
\<close>

theorem ticks_during_cycle:
  assumes "phase s = InCycle" and "\<not> buffered s" and "\<not> cancelled s"
  shows "run_loop pd s [CycleDone] = s\<lparr>phase := Waiting\<rparr>
       \<and> run_loop pd s (replicate (Suc n) Tick) = s\<lparr>buffered := True, dropped := dropped s + n\<rparr>
       \<and> run_loop pd s (replicate (Suc n) Tick @ [CycleDone])
           = s\<lparr>cycles := Suc (cycles s), dropped := dropped s + n\<rparr>"
proof -
  have 0: "run_loop pd s [CycleDone] = s\<lparr>phase := Waiting\<rparr>"
    using assms by (simp add: run_loop_def at_select_def)
  let ?s1 = "s\<lparr>buffered := True\<rparr>"
  have first: "run_loop pd s [Tick] = ?s1"
    using assms by (simp add: run_loop_def)
  have more: "run_loop pd ?s1 (replicate n Tick) = ?s1\<lparr>dropped := dropped ?s1 + n\<rparr>"
    using assms(1) by (intro ticks_on_full_buffer) simp_all
  have "run_loop pd s (replicate (Suc n) Tick)
          = run_loop pd (run_loop pd s [Tick]) (replicate n Tick)"
    by (simp add: run_loop_def)
  then have 1: "run_loop pd s (replicate (Suc n) Tick) = s\<lparr>buffered := True, dropped := dropped s + n\<rparr>"
    using first more by simp
  have "run_loop pd s (replicate (Suc n) Tick @ [CycleDone])
          = run_loop pd (run_loop pd s (replicate (Suc n) Tick)) [CycleDone]"
    by (rule run_loop_append)
  also have "\<dots> = run_loop pd (s\<lparr>buffered := True, dropped := dropped s + n\<rparr>) [CycleDone]"
    using 1 by simp
  also have "\<dots> = s\<lparr>cycles := Suc (cycles s), dropped := dropped s + n\<rparr>"
    using assms by (simp add: run_loop_def at_select_def)
  finally show ?thesis using 0 1 by blast
qed

theorem ticks_during_cycle_witness:
  "phase (startDataProcessing False [Tick]) = InCycle
   \<and> \<not> buffered (startDataProcessing False [Tick])
   \<and> \<not> cancelled (startDataProcessing False [Tick])
   \<and> run_loop False (startDataProcessing False [Tick]) (replicate (Suc 1) Tick @ [CycleDone])
       = \<lparr>phase = InCycle, buffered = False, cancelled = False, cycles = 2, dropped = 1\<rparr>
   \<and> run_loop False (startDataProcessing False [Tick]) [CycleDone]
       = \<lparr>phase = Waiting, buffered = False, cancelled = False, cycles = 1, dropped = 0\<rparr>"
proof -
  have s: "startDataProcessing False [Tick]
             = \<lparr>phase = InCycle, buffered = False, cancelled = False, cycles = 1, dropped = 0\<rparr>"
    by (simp add: startDataProcessing_def startDataProcessing_init_def run_loop_def at_select_def)
  have a: "phase (startDataProcessing False [Tick]) = InCycle" using s by simp
  have b: "\<not> buffered (startDataProcessing False [Tick])" using s by simp
  have c: "\<not> cancelled (startDataProcessing False [Tick])" using s by simp
  show ?thesis
    using ticks_during_cycle [OF a b c, of False 1] a b c s by simp
qed

text \<open>
  C6 says that starting the loop runs one dispatch cycle at once, before the periodic
  loop. \<open>startDataProcessing\<close> does not: until the first tick no cycle has been
  started, and the first tick starts the first one. \<open>Scheduler.Start\<close>, its sibling
  for the stock list, does run its job once before its ticker loop.
\<close>

theorem startDataProcessing_first_cycle_waits:
  "cycles (startDataProcessing pd []) = 0
   \<and> phase (startDataProcessing pd []) = Waiting
   \<and> cycles (startDataProcessing pd [Tick]) = 1
   \<and> cycles (Scheduler_Start []) = 1"
  by (simp add: startDataProcessing_def startDataProcessing_init_def Scheduler_Start_def
        Scheduler_Start_init_def run_loop_def at_select_def)

end
